theory Spec2Isabelle
  imports Complex_Main "HOL-Library.Multiset"
begin

section \<open>Python values, errors and effects\<close>

text \<open>
  The development embeds \<^verbatim>\<open>seaweed_apt/distilled_trainer.py\<close>: the function
  \<^verbatim>\<open>train_consistency_distillation\<close> and the configuration merge of the script's
  \<^verbatim>\<open>__main__\<close> block. Python floats are idealised as real numbers; tensors are
  flat lists of reals whose shape is their length; the neural network, the optimizer,
  the text encoder and the random number generator are parameters of the model.
\<close>

datatype error =
    ZeroDivisionError
  | ShapeError
  | SystemExit
  | ConfigError

datatype pyval =
    PyNone
  | PyBool bool
  | PyInt int
  | PyFloat real
  | PyStr string

text \<open>Python truthiness, as \<^verbatim>\<open>or\<close>, \<^verbatim>\<open>and\<close> and \<^verbatim>\<open>if\<close> test it.\<close>

fun truthy :: "pyval \<Rightarrow> bool" where
  "truthy PyNone = False"
| "truthy (PyBool b) = b"
| "truthy (PyInt i) = (i \<noteq> 0)"
| "truthy (PyFloat x) = (x \<noteq> 0)"
| "truthy (PyStr s) = (s \<noteq> [])"

definition py_or :: "pyval \<Rightarrow> pyval \<Rightarrow> pyval" where
  "py_or a b = (if truthy a then a else b)"

text \<open>\<^verbatim>\<open>a % b\<close> on Python ints: floor modulus, ZeroDivisionError for a zero divisor.\<close>

definition py_mod :: "int \<Rightarrow> int \<Rightarrow> error + int" where
  "py_mod a b = (if b = 0 then Inl ZeroDivisionError else Inr (a mod b))"

text \<open>\<^verbatim>\<open>str(n)\<close> of an int, as an f-string formats it.\<close>

definition digit_char :: "nat \<Rightarrow> char" where
  "digit_char d = char_of (48 + d)"

fun str_nat :: "nat \<Rightarrow> string" where
  "str_nat n = (if n < 10 then [digit_char n] else str_nat (n div 10) @ [digit_char (n mod 10)])"

declare str_nat.simps [simp del]

definition str_int :: "int \<Rightarrow> string" where
  "str_int i = (if i < 0 then CHR ''-'' # str_nat (nat (- i)) else str_nat (nat i))"

section \<open>Tensors\<close>

type_synonym tensor = "real list"

type_synonym params = "tensor list"

text \<open>
  Elementwise tensor arithmetic. Operands of different shape raise (broadcasting is not
  modelled: every pair of operands the trainer combines is meant to have one shape).
\<close>

definition t_sub :: "tensor \<Rightarrow> tensor \<Rightarrow> error + tensor" where
  "t_sub a b = (if length a = length b then Inr (map2 (-) a b) else Inl ShapeError)"

definition t_add :: "tensor \<Rightarrow> tensor \<Rightarrow> error + tensor" where
  "t_add a b = (if length a = length b then Inr (map2 (+) a b) else Inl ShapeError)"

definition t_smul :: "real \<Rightarrow> tensor \<Rightarrow> tensor" where
  "t_smul c a = map ((*) c) a"

text \<open>Line 147: \<^verbatim>\<open>v_teacher = v_uncond + cfg_scale * (v_cond - v_uncond)\<close>.\<close>

definition cfg_combine :: "tensor \<Rightarrow> tensor \<Rightarrow> real \<Rightarrow> error + tensor" where
  "cfg_combine v_uncond v_cond cfg_scale =
     (case t_sub v_cond v_uncond of
        Inl e \<Rightarrow> Inl e
      | Inr d \<Rightarrow> t_add v_uncond (t_smul cfg_scale d))"

text \<open>
  Line 158: \<^verbatim>\<open>F.mse_loss(v_student, v_teacher)\<close>, the mean of the squared
  differences. (For an empty prediction torch yields NaN; the model has no NaN and the
  loss only reaches the logs.)
\<close>

definition mse_loss :: "tensor \<Rightarrow> tensor \<Rightarrow> error + real" where
  "mse_loss a b =
     (if length a = length b
      then Inr (sum_list (map2 (\<lambda>x y. (x - y)\<^sup>2) a b) / real (length a))
      else Inl ShapeError)"

section \<open>The EMA update\<close>

text \<open>
  Line 108: \<^verbatim>\<open>target_param.data.mul_(decay).add_(source_param.data, alpha=1 - decay)\<close>,
  in place on the target tensor: first every element is multiplied by the decay, then
  \<^verbatim>\<open>alpha\<close> times the source is added.
\<close>

definition ema_param :: "tensor \<Rightarrow> tensor \<Rightarrow> real \<Rightarrow> error + tensor" where
  "ema_param target_param source_param decay =
     (let scaled = map (\<lambda>x. x * decay) target_param
      in if length scaled = length source_param
         then Inr (map2 (\<lambda>x y. x + (1 - decay) * y) scaled source_param)
         else Inl ShapeError)"

text \<open>
  Lines 105-108: the loop over \<^verbatim>\<open>zip(target.parameters(), source.parameters())\<close>.
  \<^verbatim>\<open>zip\<close> stops at the shorter list, so target parameters beyond it are left as they are.
  The result is the new value of the target's parameters; the source is only read.
\<close>

fun update_ema :: "params \<Rightarrow> params \<Rightarrow> real \<Rightarrow> error + params" where
  "update_ema [] source decay = Inr []"
| "update_ema (t # ts) [] decay = Inr (t # ts)"
| "update_ema (t # ts) (s # ss) decay =
     (case ema_param t s decay of
        Inl e \<Rightarrow> Inl e
      | Inr t' \<Rightarrow>
          (case update_ema ts ss decay of
             Inl e \<Rightarrow> Inl e
           | Inr ts' \<Rightarrow> Inr (t' # ts')))"

section \<open>Configuration resolution\<close>

text \<open>
  Lines 219-241. \<^verbatim>\<open>args_dict = vars(args)\<close> is a dictionary from option names to
  values. The command line is given as the list of the options that were passed (each
  once), with the value argparse converted it to; an option that was not passed gets the
  default of its \<^verbatim>\<open>add_argument\<close> call.
\<close>

type_synonym namespace = "string \<rightharpoonup> pyval"

definition parser_defaults :: "(string \<times> pyval) list" where
  "parser_defaults =
     [(''checkpoint_dir'', PyNone),
      (''output_dir'', PyStr ''./output''),
      (''device_id'', PyInt 0),
      (''num_epochs'', PyInt 10),
      (''learning_rate'', PyFloat (5 / 1000000)),
      (''cfg_scale'', PyFloat (75 / 10)),
      (''batch_size'', PyInt 8),
      (''use_wandb'', PyBool False),
      (''wandb_project'', PyStr ''seaweed-apt-distillation''),
      (''wandb_run_name'', PyNone),
      (''config_file'', PyStr ''./config.yaml''),
      (''save_interval'', PyInt 350)]"

text \<open>
  \<^verbatim>\<open>parser.parse_args()\<close>: \<^verbatim>\<open>--checkpoint_dir\<close> is required and an unknown
  option is refused (both exit the process); every other option falls back to its default.
\<close>

definition parse_args :: "(string \<times> pyval) list \<Rightarrow> error + namespace" where
  "parse_args cli =
     (if map_of cli ''checkpoint_dir'' = None
         \<or> \<not> list_all (\<lambda>kv. fst kv \<in> set (map fst parser_defaults)) cli
      then Inl SystemExit
      else Inr (\<lambda>k. case map_of cli k of Some v \<Rightarrow> Some v | None \<Rightarrow> map_of parser_defaults k))"

text \<open>
  Lines 238-240: \<^verbatim>\<open>for key, value in config.items(): if key not in args_dict or
  args_dict[key] is None: args_dict[key] = value\<close>.
\<close>

fun merge_config :: "(string \<times> pyval) list \<Rightarrow> namespace \<Rightarrow> namespace" where
  "merge_config [] args_dict = args_dict"
| "merge_config ((key, v) # items) args_dict =
     merge_config items
       (if args_dict key = None \<or> args_dict key = Some PyNone
        then args_dict(key \<mapsto> v)
        else args_dict)"

text \<open>
  Lines 232-241. \<^verbatim>\<open>path_exists\<close> is \<^verbatim>\<open>os.path.exists\<close> and \<^verbatim>\<open>omegaconf_load\<close> is
  \<^verbatim>\<open>OmegaConf.load\<close> followed by \<^verbatim>\<open>.items()\<close>; a file that does not parse
  raises. \<^verbatim>\<open>--config_file\<close> has \<^verbatim>\<open>type=str\<close>, so its value is a string.
\<close>

definition resolve_config ::
  "(string \<Rightarrow> bool) \<Rightarrow> (string \<Rightarrow> error + (string \<times> pyval) list) \<Rightarrow> (string \<times> pyval) list
     \<Rightarrow> error + namespace" where
  "resolve_config path_exists omegaconf_load cli =
     (case parse_args cli of
        Inl e \<Rightarrow> Inl e
      | Inr args \<Rightarrow>
          (case args ''config_file'' of
             Some (PyStr p) \<Rightarrow>
               (if p \<noteq> [] \<and> path_exists p
                then (case omegaconf_load p of
                        Inl e \<Rightarrow> Inl e
                      | Inr items \<Rightarrow> Inr (merge_config items args))
                else Inr args)
           | _ \<Rightarrow> Inr args))"

text \<open>The value an option has after resolution.\<close>

definition resolved_arg ::
  "(string \<Rightarrow> bool) \<Rightarrow> (string \<Rightarrow> error + (string \<times> pyval) list) \<Rightarrow> (string \<times> pyval) list
     \<Rightarrow> string \<Rightarrow> error + pyval option" where
  "resolved_arg path_exists omegaconf_load cli k =
     (case resolve_config path_exists omegaconf_load cli of
        Inl e \<Rightarrow> Inl e
      | Inr args \<Rightarrow> Inr (args k))"

section \<open>The training function\<close>

subsection \<open>Inputs, state and observable effects\<close>

text \<open>A batch of the data loader: \<^verbatim>\<open>(samples, text_prompts)\<close>, the samples stacked
  along their first dimension.\<close>

record batch =
  samples :: "tensor list"
  text_prompts :: "string list"

text \<open>
  Everything \<^verbatim>\<open>train_consistency_distillation\<close> reads.
  \<^item> Its arguments: \<^verbatim>\<open>original_model\<close> (the teacher, by its parameters),
    \<^verbatim>\<open>train_dataloader\<close>, \<^verbatim>\<open>checkpoint_dir\<close>, \<^verbatim>\<open>output_dir\<close>, the
    \<^verbatim>\<open>accelerator\<close> (by its \<^verbatim>\<open>is_main_process\<close> flag) and the keyword arguments.
    \<^verbatim>\<open>train_dataloader e\<close> is what iterating the loader yields in epoch \<^verbatim>\<open>e\<close>: it
    reshuffles between epochs.
  \<^item> The fields of \<^verbatim>\<open>config\<close> that matter to the loop. The body reads the name
    \<^verbatim>\<open>config\<close>, which is the module-level object, not the parameter
    \<^verbatim>\<open>model_config\<close>.
  \<^item> \<^verbatim>\<open>grad_mode\<close>: torch's gradient mode when the function is called.
  \<^item> The library calls: \<^verbatim>\<open>WanModel.from_pretrained\<close>; the initial state of
    \<^verbatim>\<open>optim.RMSprop\<close>; the T5 text encoder; \<^verbatim>\<open>randn_like k x\<close>, the \<^verbatim>\<open>k\<close>-th draw
    of \<^verbatim>\<open>torch.randn_like\<close>; \<^verbatim>\<open>wan_forward\<close>, a forward pass of a \<^verbatim>\<open>WanModel\<close>
    with the given parameters; and \<^verbatim>\<open>backward_step\<close>, which is
    \<^verbatim>\<open>accelerator.backward(loss)\<close>, \<^verbatim>\<open>optimizer.step()\<close> and
    \<^verbatim>\<open>optimizer.zero_grad()\<close> together: from the optimizer state, the student's
    parameters and the inputs of the loss to the new optimizer state and the new
    student parameters.
  The device, mixed precision and the \<^verbatim>\<open>eval()\<close>/\<^verbatim>\<open>train()\<close> mode switches of
  lines 85-86 and 102 are left out: no statement below depends on them.
\<close>

record env =
  original_model :: params
  train_dataloader :: "nat \<Rightarrow> batch list"
  checkpoint_dir :: string
  output_dir :: string
  is_main_process :: bool
  num_epochs :: int
  learning_rate :: real
  cfg_scale :: real
  save_interval :: int
  use_wandb :: bool
  project_name :: string
  run_name :: "string option"
  sample_neg_prompt :: pyval
  num_train_timesteps :: real
  seq_len :: nat
  grad_mode :: bool
  from_pretrained :: "string \<Rightarrow> params"
  rmsprop_init :: "params \<Rightarrow> real \<Rightarrow> params"
  text_encoder :: "pyval list \<Rightarrow> tensor list"
  randn_like :: "nat \<Rightarrow> tensor list \<Rightarrow> tensor list"
  wan_forward :: "params \<Rightarrow> tensor list \<Rightarrow> tensor \<Rightarrow> tensor list \<Rightarrow> nat \<Rightarrow> tensor"
  backward_step ::
    "params \<Rightarrow> params \<Rightarrow> tensor list \<Rightarrow> tensor \<Rightarrow> tensor list \<Rightarrow> tensor \<Rightarrow> params \<times> params"

text \<open>
  The objects the function mutates and its two counters. The three models are three
  objects: the teacher is the caller's, the student and the EMA model are each loaded
  afresh (lines 74 and 101). \<^verbatim>\<open>grad_enabled\<close> is torch's gradient mode.
\<close>

record train_state =
  original_params :: params
  distilled_params :: params
  optimizer_state :: params
  ema_params :: params
  step :: nat
  total_loss :: real
  grad_enabled :: bool

datatype model_id = OriginalModel | DistilledModel

text \<open>
  What the process does to the outside: console lines (\<^verbatim>\<open>PrintLoss\<close> is the progress
  line of line 184, its numbers left unformatted), \<^verbatim>\<open>os.makedirs(path, exist_ok=True)\<close>,
  the wandb calls and \<^verbatim>\<open>torch.save(obj, path)\<close>; and each forward pass, with the
  gradient mode it ran under. Reading the checkpoint directory changes nothing outside
  the process and is not an event; neither is the progress bar of \<^verbatim>\<open>tqdm\<close>.
\<close>

datatype event =
    Print string
  | PrintLoss nat nat real
  | MakeDirs string
  | WandbInit string "string option" real int real int
  | WandbLog nat real real nat
  | WandbFinish
  | TorchSave params string
  | Forward model_id bool

text \<open>A computation emits events and then returns or raises; the events emitted before
  a raise stay emitted.\<close>

type_synonym 'a io = "event list \<times> (error + 'a)"

definition return_io :: "'a \<Rightarrow> 'a io" where
  "return_io x = ([], Inr x)"

definition emit :: "event \<Rightarrow> unit io" where
  "emit e = ([e], Inr ())"

definition lift_err :: "error + 'a \<Rightarrow> 'a io" where
  "lift_err r = ([], r)"

definition bind_io :: "'a io \<Rightarrow> ('a \<Rightarrow> 'b io) \<Rightarrow> 'b io" where
  "bind_io m f =
     (case snd m of
        Inl e \<Rightarrow> (fst m, Inl e)
      | Inr x \<Rightarrow> (fst m @ fst (f x), snd (f x)))"

definition when_io :: "bool \<Rightarrow> unit io \<Rightarrow> unit io" where
  "when_io c m = (if c then m else return_io ())"

subsection \<open>Constants and helpers of the function body\<close>

definition ema_decay :: real where
  "ema_decay = 995 / 1000"

text \<open>\<^verbatim>\<open>accelerator.unwrap_model\<close> strips the distributed wrapper and
  \<^verbatim>\<open>state_dict()\<close> snapshots the parameters; neither changes a parameter.\<close>

definition unwrap_model :: "params \<Rightarrow> params" where
  "unwrap_model m = m"

definition state_dict :: "params \<Rightarrow> params" where
  "state_dict m = m"

text \<open>Line 99: \<^verbatim>\<open>negative_prompt = config.sample_neg_prompt or ""\<close>.\<close>

definition negative_prompt :: "env \<Rightarrow> pyval" where
  "negative_prompt env = py_or (sample_neg_prompt env) (PyStr [])"

text \<open>Line 120: \<^verbatim>\<open>text_encoder([negative_prompt] * len(text_prompts), device)\<close>.\<close>

definition context_null :: "env \<Rightarrow> batch \<Rightarrow> tensor list" where
  "context_null env b =
     text_encoder env (replicate (length (text_prompts b)) (negative_prompt env))"

definition step_path :: "env \<Rightarrow> nat \<Rightarrow> string" where
  "step_path env n = output_dir env @ ''/consistency_model_step_'' @ str_nat n @ ''.pt''"

definition epoch_path :: "env \<Rightarrow> nat \<Rightarrow> string" where
  "epoch_path env e = output_dir env @ ''/consistency_model_epoch_'' @ str_nat e @ ''.pt''"

definition final_path :: "env \<Rightarrow> string" where
  "final_path env = output_dir env @ ''/consistency_model_final.pt''"

subsection \<open>One iteration of the inner loop\<close>

text \<open>Lines 119-126: the local values of an iteration (\<^verbatim>\<open>context\<close>, \<^verbatim>\<open>noise\<close>,
  \<^verbatim>\<open>timestep\<close>; \<^verbatim>\<open>context_null\<close> is above).\<close>

definition context_cond :: "env \<Rightarrow> batch \<Rightarrow> tensor list" where
  "context_cond env b = text_encoder env (map PyStr (text_prompts b))"

definition batch_noise :: "env \<Rightarrow> batch \<Rightarrow> train_state \<Rightarrow> tensor list" where
  "batch_noise env b s = randn_like env (step s) (samples b)"

definition batch_timestep :: "env \<Rightarrow> batch \<Rightarrow> tensor" where
  "batch_timestep env b = replicate (length (samples b)) (num_train_timesteps env)"

text \<open>A call \<^verbatim>\<open>model([noise], t=timestep, context=ctx, seq_len=config.seq_len)[0]\<close>.\<close>

definition call_model ::
  "env \<Rightarrow> model_id \<Rightarrow> params \<Rightarrow> tensor list \<Rightarrow> tensor \<Rightarrow> tensor list \<Rightarrow> train_state \<Rightarrow> tensor io" where
  "call_model env who ps noise timestep ctx s =
     bind_io (emit (Forward who (grad_enabled s)))
       (\<lambda>_. return_io (wan_forward env ps noise timestep ctx (seq_len env)))"

text \<open>\<^verbatim>\<open>with torch.no_grad():\<close> runs its body with the gradient mode off; the mode the
  block was entered with is back in force after it.\<close>

definition no_grad :: "(train_state \<Rightarrow> 'a io) \<Rightarrow> train_state \<Rightarrow> 'a io" where
  "no_grad body s = body (s\<lparr>grad_enabled := False\<rparr>)"

text \<open>Lines 129-147: the teacher's two passes and their combination.\<close>

definition teacher_prediction ::
  "env \<Rightarrow> tensor list \<Rightarrow> tensor \<Rightarrow> tensor list \<Rightarrow> tensor list \<Rightarrow> train_state \<Rightarrow> tensor io" where
  "teacher_prediction env noise timestep ctx ctx_null s =
     no_grad (\<lambda>s'.
       bind_io (call_model env OriginalModel (original_params s') noise timestep ctx_null s')
         (\<lambda>v_uncond.
       bind_io (call_model env OriginalModel (original_params s') noise timestep ctx s')
         (\<lambda>v_cond.
       lift_err (cfg_combine v_uncond v_cond (cfg_scale env))))) s"

text \<open>Lines 161-163: the optimizer holds the student's parameters only (line 77).\<close>

definition optimizer_update ::
  "env \<Rightarrow> tensor list \<Rightarrow> tensor \<Rightarrow> tensor list \<Rightarrow> tensor \<Rightarrow> train_state \<Rightarrow> train_state" where
  "optimizer_update env noise timestep ctx v_teacher s =
     (case backward_step env (optimizer_state s) (distilled_params s) noise timestep ctx v_teacher of
        (opt', student') \<Rightarrow> s\<lparr>optimizer_state := opt', distilled_params := student'\<rparr>)"

text \<open>Line 166: \<^verbatim>\<open>update_ema(ema_model, distilled_model, ema_decay)\<close> writes the
  tensors of its first argument in place. Its body runs under \<^verbatim>\<open>torch.no_grad()\<close>,
  makes no forward pass, and leaves the gradient mode as it found it.\<close>

definition run_update_ema :: "real \<Rightarrow> train_state \<Rightarrow> train_state io" where
  "run_update_ema decay s =
     (case update_ema (ema_params s) (distilled_params s) decay of
        Inl e \<Rightarrow> lift_err (Inl e)
      | Inr ema' \<Rightarrow> return_io (s\<lparr>ema_params := ema'\<rparr>))"

text \<open>Lines 173-179.\<close>

definition log_wandb :: "env \<Rightarrow> nat \<Rightarrow> nat \<Rightarrow> real \<Rightarrow> train_state \<Rightarrow> unit io" where
  "log_wandb env epoch batch_idx loss s =
     when_io (use_wandb env \<and> is_main_process env \<and> batch_idx mod 5 = 0)
       (emit (WandbLog (step s) loss (total_loss s / real (batch_idx + 1)) (epoch + 1)))"

text \<open>Lines 182-184.\<close>

definition print_progress :: "env \<Rightarrow> nat \<Rightarrow> nat \<Rightarrow> train_state \<Rightarrow> unit io" where
  "print_progress env epoch batch_idx s =
     when_io (is_main_process env \<and> batch_idx mod 10 = 0)
       (emit (PrintLoss (epoch + 1) batch_idx (total_loss s / real (batch_idx + 1))))"

text \<open>Lines 187-191. \<^verbatim>\<open>step % save_interval == 0\<close> is evaluated first, so a zero
  interval raises in every process.\<close>

definition save_step_checkpoint :: "env \<Rightarrow> train_state \<Rightarrow> unit io" where
  "save_step_checkpoint env s =
     bind_io (lift_err (py_mod (int (step s)) (save_interval env)))
       (\<lambda>r. when_io (r = 0 \<and> is_main_process env)
          (bind_io (emit (TorchSave (state_dict (unwrap_model (ema_params s))) (step_path env (step s))))
             (\<lambda>_. emit (Print (''Saved EMA checkpoint to '' @ step_path env (step s))))))"

text \<open>Lines 117-191, the body of \<^verbatim>\<open>for batch_idx, (samples, text_prompts) in
  enumerate(tqdm(train_dataloader))\<close>.\<close>

definition train_batch :: "env \<Rightarrow> nat \<Rightarrow> nat \<Rightarrow> batch \<Rightarrow> train_state \<Rightarrow> train_state io" where
  "train_batch env epoch batch_idx b s =
     (let ctx = context_cond env b;
          ctx_null = context_null env b;
          noise = batch_noise env b s;
          timestep = batch_timestep env b
      in bind_io (teacher_prediction env noise timestep ctx ctx_null s) (\<lambda>v_teacher.
         bind_io (call_model env DistilledModel (distilled_params s) noise timestep ctx s) (\<lambda>v_student.
         bind_io (lift_err (mse_loss v_student v_teacher)) (\<lambda>loss.
         bind_io (run_update_ema ema_decay
                    (optimizer_update env noise timestep ctx v_teacher s)) (\<lambda>s1.
         let s2 = s1\<lparr>total_loss := total_loss s1 + loss, step := step s1 + 1\<rparr>
         in bind_io (log_wandb env epoch batch_idx loss s2) (\<lambda>_.
            bind_io (print_progress env epoch batch_idx s2) (\<lambda>_.
            bind_io (save_step_checkpoint env s2) (\<lambda>_.
            return_io s2))))))))"

subsection \<open>The loops and the whole function\<close>

text \<open>The inner loop from index \<^verbatim>\<open>batch_idx\<close> on.\<close>

fun train_batches :: "env \<Rightarrow> nat \<Rightarrow> nat \<Rightarrow> batch list \<Rightarrow> train_state \<Rightarrow> train_state io" where
  "train_batches env epoch batch_idx [] s = return_io s"
| "train_batches env epoch batch_idx (b # bs) s =
     bind_io (train_batch env epoch batch_idx b s)
       (train_batches env epoch (batch_idx + 1) bs)"

text \<open>Lines 194-198.\<close>

definition save_epoch_checkpoint :: "env \<Rightarrow> nat \<Rightarrow> train_state \<Rightarrow> unit io" where
  "save_epoch_checkpoint env epoch s =
     when_io (is_main_process env)
       (bind_io (emit (TorchSave (state_dict (unwrap_model (ema_params s))) (epoch_path env (epoch + 1))))
          (\<lambda>_. emit (Print (''Saved EMA epoch checkpoint to '' @ epoch_path env (epoch + 1)))))"

text \<open>Lines 115-200, the body of \<^verbatim>\<open>for epoch in range(num_epochs)\<close>.\<close>

definition train_epoch :: "env \<Rightarrow> nat \<Rightarrow> train_state \<Rightarrow> train_state io" where
  "train_epoch env epoch s =
     bind_io (emit (Print (''Epoch '' @ str_nat (epoch + 1) @ ''/'' @ str_int (num_epochs env)))) (\<lambda>_.
     bind_io (train_batches env epoch 0 (train_dataloader env epoch) s) (\<lambda>s1.
     bind_io (save_epoch_checkpoint env epoch s1) (\<lambda>_.
     return_io (s1\<lparr>total_loss := 0\<rparr>))))"

fun train_epochs :: "env \<Rightarrow> nat list \<Rightarrow> train_state \<Rightarrow> train_state io" where
  "train_epochs env [] s = return_io s"
| "train_epochs env (epoch # epochs) s =
     bind_io (train_epoch env epoch s) (train_epochs env epochs)"

text \<open>\<^verbatim>\<open>range(num_epochs)\<close>: empty for a count that is not positive.\<close>

definition epoch_range :: "env \<Rightarrow> nat list" where
  "epoch_range env = [0 ..< nat (num_epochs env)]"

text \<open>Lines 54-112: console line, output directory, wandb session, the student and
  its optimizer, the EMA model, the counters.\<close>

definition initial_state :: "env \<Rightarrow> train_state" where
  "initial_state env =
     \<lparr>original_params = original_model env,
      distilled_params = from_pretrained env (checkpoint_dir env),
      optimizer_state =
        rmsprop_init env (from_pretrained env (checkpoint_dir env)) (learning_rate env),
      ema_params = from_pretrained env (checkpoint_dir env),
      step = 0,
      total_loss = 0,
      grad_enabled = grad_mode env\<rparr>"

definition startup :: "env \<Rightarrow> train_state io" where
  "startup env =
     bind_io (emit (Print ''Initializing consistency distillation training...'')) (\<lambda>_.
     bind_io (emit (MakeDirs (output_dir env))) (\<lambda>_.
     bind_io (when_io (use_wandb env \<and> is_main_process env)
                (emit (WandbInit (project_name env) (run_name env) (learning_rate env)
                         (num_epochs env) (cfg_scale env) (save_interval env)))) (\<lambda>_.
     return_io (initial_state env))))"

text \<open>Lines 203-207.\<close>

definition save_final :: "env \<Rightarrow> train_state \<Rightarrow> unit io" where
  "save_final env s =
     when_io (is_main_process env)
       (bind_io (emit (TorchSave (state_dict (unwrap_model (ema_params s))) (final_path env)))
          (\<lambda>_. emit (Print (''Saved final EMA consistency model to '' @ final_path env))))"

text \<open>Lines 110-200: the state after the loops.\<close>

definition training_loop :: "env \<Rightarrow> train_state io" where
  "training_loop env = bind_io (startup env) (train_epochs env (epoch_range env))"

text \<open>Lines 54-212: \<^verbatim>\<open>train_consistency_distillation\<close>.\<close>

definition train_consistency_distillation :: "env \<Rightarrow> params io" where
  "train_consistency_distillation env =
     bind_io (training_loop env) (\<lambda>s.
     bind_io (save_final env s) (\<lambda>_.
     bind_io (when_io (use_wandb env \<and> is_main_process env) (emit WandbFinish)) (\<lambda>_.
     return_io (unwrap_model (ema_params s)))))"

section \<open>Notions used in the statements\<close>

text \<open>The three predictions of an iteration that starts in state \<^verbatim>\<open>s\<close> (lines 131-155).\<close>

definition v_uncond_of :: "env \<Rightarrow> batch \<Rightarrow> train_state \<Rightarrow> tensor" where
  "v_uncond_of env b s =
     wan_forward env (original_params s) (batch_noise env b s) (batch_timestep env b)
       (context_null env b) (seq_len env)"

definition v_cond_of :: "env \<Rightarrow> batch \<Rightarrow> train_state \<Rightarrow> tensor" where
  "v_cond_of env b s =
     wan_forward env (original_params s) (batch_noise env b s) (batch_timestep env b)
       (context_cond env b) (seq_len env)"

definition v_student_of :: "env \<Rightarrow> batch \<Rightarrow> train_state \<Rightarrow> tensor" where
  "v_student_of env b s =
     wan_forward env (distilled_params s) (batch_noise env b s) (batch_timestep env b)
       (context_cond env b) (seq_len env)"

text \<open>The \<^verbatim>\<open>torch.save\<close> calls of a trace, in order: what was written and where.\<close>

fun saves :: "event list \<Rightarrow> (params \<times> string) list" where
  "saves [] = []"
| "saves (TorchSave c p # es) = (c, p) # saves es"
| "saves (e # es) = saves es"

text \<open>The events that touch the file system or the network.\<close>

fun is_io_effect :: "event \<Rightarrow> bool" where
  "is_io_effect (MakeDirs p) = True"
| "is_io_effect (WandbInit a b c d e f) = True"
| "is_io_effect (WandbLog a b c d) = True"
| "is_io_effect WandbFinish = True"
| "is_io_effect (TorchSave c p) = True"
| "is_io_effect e = False"

text \<open>A forward pass of the teacher with gradient tracking on.\<close>

fun teacher_grad_pass :: "event \<Rightarrow> bool" where
  "teacher_grad_pass (Forward OriginalModel g) = g"
| "teacher_grad_pass e = False"

text \<open>
  The run up to a point of the loops: start-up, the epochs before epoch \<^verbatim>\<open>e\<close>, and
  the first \<^verbatim>\<open>k\<close> iterations of epoch \<^verbatim>\<open>e\<close>.
\<close>

definition run_prefix :: "env \<Rightarrow> nat \<Rightarrow> nat \<Rightarrow> train_state io" where
  "run_prefix env e k =
     bind_io (bind_io (startup env) (train_epochs env [0 ..< e]))
       (train_batches env e 0 (take k (train_dataloader env e)))"

text \<open>The paths of the \<^verbatim>\<open>torch.save\<close> calls of a trace, and the number of
  iterations a run makes.\<close>

definition saved_paths :: "event list \<Rightarrow> string list" where
  "saved_paths es = map snd (saves es)"

definition steps_in :: "env \<Rightarrow> nat list \<Rightarrow> nat" where
  "steps_in env epochs = sum_list (map (\<lambda>e. length (train_dataloader env e)) epochs)"

definition total_steps :: "env \<Rightarrow> nat" where
  "total_steps env = steps_in env (epoch_range env)"

subsection \<open>A small concrete run\<close>

text \<open>
  One sample per batch, two batches per epoch, two epochs. The network adds up its
  parameters and its conditioning, the encoder yields 2 for a non-empty prompt and 0
  for the empty one, and every optimizer step adds 1 to each student parameter: the
  teacher predicts 1 without and 3 with the prompt.
\<close>

definition example_batch :: batch where
  "example_batch = \<lparr>samples = [[0]], text_prompts = [''a landscape'']\<rparr>"

definition example_env :: env where
  "example_env =
     \<lparr>original_model = [[1]],
      train_dataloader = (\<lambda>e. [example_batch, example_batch]),
      checkpoint_dir = ''ckpt'',
      output_dir = ''out'',
      is_main_process = True,
      num_epochs = 2,
      learning_rate = 5 / 1000000,
      cfg_scale = 75 / 10,
      save_interval = 3,
      use_wandb = True,
      project_name = ''wan-consistency-distillation'',
      run_name = None,
      sample_neg_prompt = PyNone,
      num_train_timesteps = 1000,
      seq_len = 1,
      grad_mode = True,
      from_pretrained = (\<lambda>d. [[0]]),
      rmsprop_init = (\<lambda>ps lr. ps),
      text_encoder = (\<lambda>prompts. [[2 * real (length (filter truthy prompts))]]),
      randn_like = (\<lambda>k x. x),
      wan_forward = (\<lambda>ps noise t ctx sl. [sum_list (concat ps) + sum_list (concat ctx)]),
      backward_step = (\<lambda>opt ps noise t ctx target. (opt, map (map (\<lambda>x. x + 1)) ps))\<rparr>"

definition example_state :: train_state where
  "example_state =
     \<lparr>original_params = [[1]],
      distilled_params = [[3, 4], [5]],
      optimizer_state = [],
      ema_params = [[1, 2], [1]],
      step = 7,
      total_loss = 0,
      grad_enabled = True\<rparr>"

text \<open>The same run in a process that is not the main one.\<close>

definition secondary_env :: env where
  "secondary_env = example_env\<lparr>is_main_process := False\<rparr>"

text \<open>The same run with 500 batches in each of its two epochs and the paper's interval.\<close>

definition cadence_env :: env where
  "cadence_env =
     example_env\<lparr>train_dataloader := (\<lambda>e. replicate 500 example_batch), save_interval := 350\<rparr>"

section \<open>Facts about the effect layer\<close>

lemma fst_return_io [simp]: "fst (return_io x) = []"
  and snd_return_io [simp]: "snd (return_io x) = Inr x"
  by (simp_all add: return_io_def)

lemma fst_emit [simp]: "fst (emit e) = [e]"
  and snd_emit [simp]: "snd (emit e) = Inr ()"
  by (simp_all add: emit_def)

lemma fst_lift_err [simp]: "fst (lift_err r) = []"
  and snd_lift_err [simp]: "snd (lift_err r) = r"
  by (simp_all add: lift_err_def)

lemma fst_bind_io:
  "fst (bind_io m f) = fst m @ (case snd m of Inl e \<Rightarrow> [] | Inr x \<Rightarrow> fst (f x))"
  by (cases "snd m") (simp_all add: bind_io_def)

lemma snd_bind_io:
  "snd (bind_io m f) = (case snd m of Inl e \<Rightarrow> Inl e | Inr x \<Rightarrow> snd (f x))"
  by (cases "snd m") (simp_all add: bind_io_def)

lemma snd_bind_io_Inr_iff:
  "snd (bind_io m f) = Inr y \<longleftrightarrow> (\<exists>x. snd m = Inr x \<and> snd (f x) = Inr y)"
  by (cases "snd m") (simp_all add: bind_io_def)

lemma fst_when_io [simp]: "fst (when_io c m) = (if c then fst m else [])"
  and snd_when_io_emit [simp]: "snd (when_io c (emit e)) = Inr ()"
  by (simp_all add: when_io_def)

lemma bind_io_assoc: "bind_io (bind_io m f) g = bind_io m (\<lambda>x. bind_io (f x) g)"
  by (cases "snd m") (auto simp: bind_io_def split: sum.splits)

lemma bind_io_return [simp]: "bind_io (return_io x) f = f x"
  by (simp add: bind_io_def return_io_def)

lemma bind_io_return2 [simp]: "bind_io m return_io = m"
  by (cases m; cases "snd m") (auto simp: bind_io_def return_io_def)

lemma teacher_prediction_eq:
  "teacher_prediction env (batch_noise env b s) (batch_timestep env b) (context_cond env b)
     (context_null env b) s =
   ([Forward OriginalModel False, Forward OriginalModel False],
    cfg_combine (v_uncond_of env b s) (v_cond_of env b s) (cfg_scale env))"
  by (simp add: teacher_prediction_def no_grad_def call_model_def bind_io_def
      v_uncond_of_def v_cond_of_def emit_def return_io_def lift_err_def)

lemma train_batch_Inr:
  assumes "snd (train_batch env epoch i b s) = Inr s'"
  shows "\<exists>v_teacher loss ema'.
           cfg_combine (v_uncond_of env b s) (v_cond_of env b s) (cfg_scale env) = Inr v_teacher \<and>
           mse_loss (v_student_of env b s) v_teacher = Inr loss \<and>
           update_ema (ema_params s)
             (snd (backward_step env (optimizer_state s) (distilled_params s)
                (batch_noise env b s) (batch_timestep env b) (context_cond env b) v_teacher))
             ema_decay = Inr ema' \<and>
           save_interval env \<noteq> 0 \<and>
           s' = s\<lparr>optimizer_state :=
                    fst (backward_step env (optimizer_state s) (distilled_params s)
                      (batch_noise env b s) (batch_timestep env b) (context_cond env b) v_teacher),
                  distilled_params :=
                    snd (backward_step env (optimizer_state s) (distilled_params s)
                      (batch_noise env b s) (batch_timestep env b) (context_cond env b) v_teacher),
                  ema_params := ema',
                  total_loss := total_loss s + loss,
                  step := step s + 1\<rparr>"
  using assms
  by (auto simp: train_batch_def Let_def teacher_prediction_eq snd_bind_io call_model_def
      v_student_of_def run_update_ema_def optimizer_update_def save_step_checkpoint_def
      log_wandb_def print_progress_def py_mod_def when_io_def
      split: sum.splits prod.splits if_splits)


lemma saves_append [simp]: "saves (xs @ ys) = saves xs @ saves ys"
  by (induction xs rule: saves.induct) simp_all

lemma saves_mem: "(c, p) \<in> set (saves es) \<longleftrightarrow> TorchSave c p \<in> set es"
  by (induction es rule: saves.induct) auto

lemmas batch_defs = train_batch_def Let_def teacher_prediction_eq call_model_def
      run_update_ema_def optimizer_update_def save_step_checkpoint_def
      log_wandb_def print_progress_def py_mod_def when_io_def

lemma train_batch_saves:
  "saves (fst (train_batch env epoch i b s)) =
     (case snd (train_batch env epoch i b s) of
        Inl e \<Rightarrow> []
      | Inr s' \<Rightarrow>
          if is_main_process env \<and> int (step s') mod save_interval env = 0
          then [(ema_params s', step_path env (step s'))] else [])"
  by (auto simp: batch_defs fst_bind_io snd_bind_io state_dict_def unwrap_model_def
      split: sum.splits prod.splits if_splits)

lemma train_batch_secondary:
  "\<not> is_main_process env \<Longrightarrow> filter is_io_effect (fst (train_batch env epoch i b s)) = []"
  by (auto simp: batch_defs fst_bind_io snd_bind_io
      split: sum.splits prod.splits if_splits)

lemma train_batch_teacher_no_grad:
  "filter teacher_grad_pass (fst (train_batch env epoch i b s)) = []"
  by (auto simp: batch_defs fst_bind_io snd_bind_io
      split: sum.splits prod.splits if_splits)

lemma train_batches_append:
  "train_batches env epoch i (xs @ ys) s =
     bind_io (train_batches env epoch i xs s) (train_batches env epoch (i + length xs) ys)"
proof (induction xs arbitrary: i s)
  case Nil
  then show ?case by simp
next
  case (Cons a xs)
  have "train_batches env epoch (Suc i) (xs @ ys) =
          (\<lambda>x. bind_io (train_batches env epoch (Suc i) xs x)
                 (train_batches env epoch (Suc i + length xs) ys))"
    by (rule ext) (rule Cons.IH)
  then show ?case by (simp add: bind_io_assoc)
qed

lemma train_epochs_append:
  "train_epochs env (xs @ ys) s = bind_io (train_epochs env xs s) (train_epochs env ys)"
proof (induction xs arbitrary: s)
  case Nil
  then show ?case by simp
next
  case (Cons a xs)
  have "train_epochs env (xs @ ys) =
          (\<lambda>x. bind_io (train_epochs env xs x) (train_epochs env ys))"
    by (rule ext) (rule Cons.IH)
  then show ?case by (simp add: bind_io_assoc)
qed

lemma filter_fst_bind_io:
  "filter P (fst (bind_io m f)) =
     filter P (fst m) @ (case snd m of Inl e \<Rightarrow> [] | Inr x \<Rightarrow> filter P (fst (f x)))"
  by (cases "snd m") (simp_all add: bind_io_def)

lemma train_batches_filter_empty:
  assumes "\<And>i b s. filter P (fst (train_batch env epoch i b s)) = []"
  shows "filter P (fst (train_batches env epoch i bs s)) = []"
  by (induction bs arbitrary: i s) (simp_all add: filter_fst_bind_io assms split: sum.splits)

lemmas run_defs = train_consistency_distillation_def training_loop_def startup_def save_final_def
  train_epoch_def epoch_range_def save_epoch_checkpoint_def train_batch_def save_step_checkpoint_def
  print_progress_def log_wandb_def run_update_ema_def optimizer_update_def teacher_prediction_def
  no_grad_def call_model_def batch_noise_def batch_timestep_def context_cond_def context_null_def
  negative_prompt_def initial_state_def bind_io_def when_io_def return_io_def emit_def lift_err_def
  py_mod_def py_or_def cfg_combine_def t_sub_def t_add_def t_smul_def mse_loss_def ema_param_def
  ema_decay_def unwrap_model_def state_dict_def step_path_def epoch_path_def final_path_def
  v_uncond_of_def v_cond_of_def v_student_of_def

lemma cfg_combine_nth:
  assumes "cfg_combine u c k = Inr v"
  shows "length v = length u \<and> (\<forall>i < length v. v ! i = u ! i + k * (c ! i - u ! i))"
  using assms by (auto simp: cfg_combine_def t_sub_def t_add_def t_smul_def split: if_splits)

lemma ema_param_nth:
  assumes "length t = length s"
  shows "\<exists>t'. ema_param t s d = Inr t' \<and> length t' = length t \<and>
               (\<forall>j < length t. t' ! j = d * t ! j + (1 - d) * s ! j)"
  using assms by (simp add: ema_param_def Let_def mult.commute)

lemma update_ema_nth:
  assumes "list_all2 (\<lambda>t s. length t = length s) target source"
  shows "\<exists>t'. update_ema target source d = Inr t' \<and> length t' = length target \<and>
               (\<forall>i < length target. length (t' ! i) = length (target ! i) \<and>
                  (\<forall>j < length (target ! i).
                     t' ! i ! j = d * target ! i ! j + (1 - d) * source ! i ! j))"
  using assms
proof (induction target source rule: list_all2_induct)
  case Nil
  then show ?case by simp
next
  case (Cons t ts s ss)
  from ema_param_nth [OF Cons.hyps(1), of d] obtain t' where
    t': "ema_param t s d = Inr t'" "length t' = length t"
        "\<forall>j < length t. t' ! j = d * t ! j + (1 - d) * s ! j"
    by blast
  from Cons.IH obtain ts' where
    ts': "update_ema ts ss d = Inr ts'" "length ts' = length ts"
         "\<forall>i < length ts. length (ts' ! i) = length (ts ! i) \<and>
            (\<forall>j < length (ts ! i). ts' ! i ! j = d * ts ! i ! j + (1 - d) * ss ! i ! j)"
    by blast
  have "update_ema (t # ts) (s # ss) d = Inr (t' # ts')"
    using t'(1) ts'(1) by simp
  moreover have "length (t' # ts') = length (t # ts)"
    using ts'(2) by simp
  moreover have "\<forall>i < length (t # ts). length ((t' # ts') ! i) = length ((t # ts) ! i) \<and>
       (\<forall>j < length ((t # ts) ! i).
          (t' # ts') ! i ! j = d * (t # ts) ! i ! j + (1 - d) * (s # ss) ! i ! j)"
  proof (intro allI impI)
    fix i assume "i < length (t # ts)"
    then show "length ((t' # ts') ! i) = length ((t # ts) ! i) \<and>
       (\<forall>j < length ((t # ts) ! i).
          (t' # ts') ! i ! j = d * (t # ts) ! i ! j + (1 - d) * (s # ss) ! i ! j)"
      using t'(2,3) ts'(3) by (cases i) simp_all
  qed
  ultimately show ?case by blast
qed

lemma ema_param_Inr:
  assumes "ema_param t s d = Inr t'"
  shows "length s = length t \<and> length t' = length t \<and>
         (\<forall>j < length t. t' ! j = d * t ! j + (1 - d) * s ! j)"
  using assms by (auto simp: ema_param_def Let_def mult.commute split: if_splits)

lemma update_ema_Inr_nth:
  assumes "update_ema t s d = Inr t'"
  shows "length t' = length t \<and>
         (\<forall>i < length t.
            if i < length s
            then length (s ! i) = length (t ! i) \<and> length (t' ! i) = length (t ! i) \<and>
                 (\<forall>j < length (t ! i). t' ! i ! j = d * t ! i ! j + (1 - d) * s ! i ! j)
            else t' ! i = t ! i)"
  using assms
proof (induction t s d arbitrary: t' rule: update_ema.induct)
  case (1 source decay)
  then show ?case by simp
next
  case (2 t ts decay)
  then show ?case by auto
next
  case (3 t ts s ss decay)
  from "3.prems" obtain u us where
    u: "ema_param t s decay = Inr u" and us: "update_ema ts ss decay = Inr us"
    and t': "t' = u # us"
    by (auto split: sum.splits)
  note hu = ema_param_Inr [OF u]
  note hus = "3.IH" [OF u us]
  show ?case
  proof (intro conjI allI impI)
    show "length t' = length (t # ts)" using t' hus by simp
  next
    fix i assume "i < length (t # ts)"
    then show "if i < length (s # ss)
            then length ((s # ss) ! i) = length ((t # ts) ! i) \<and>
                 length (t' ! i) = length ((t # ts) ! i) \<and>
                 (\<forall>j < length ((t # ts) ! i).
                    t' ! i ! j = decay * (t # ts) ! i ! j + (1 - decay) * (s # ss) ! i ! j)
            else t' ! i = (t # ts) ! i"
      using hu hus t' by (cases i) (simp_all split: if_splits)
  qed
qed

lemma save_final_snd [simp]: "snd (save_final env s) = Inr ()"
  by (simp add: save_final_def when_io_def snd_bind_io)

lemma train_epoch_secondary:
  assumes "\<not> is_main_process env"
  shows "filter is_io_effect (fst (train_epoch env epoch s)) = []"
  using assms
  by (simp add: train_epoch_def filter_fst_bind_io save_epoch_checkpoint_def
      train_batches_filter_empty train_batch_secondary split: sum.splits)

lemma train_epochs_secondary:
  assumes "\<not> is_main_process env"
  shows "filter is_io_effect (fst (train_epochs env epochs s)) = []"
  using assms
  by (induction epochs arbitrary: s)
     (simp_all add: filter_fst_bind_io train_epoch_secondary split: sum.splits)

lemma startup_eq:
  "startup env =
     ([Print ''Initializing consistency distillation training...'', MakeDirs (output_dir env)] @
      (if use_wandb env \<and> is_main_process env
       then [WandbInit (project_name env) (run_name env) (learning_rate env)
               (num_epochs env) (cfg_scale env) (save_interval env)]
       else []),
      Inr (initial_state env))"
  by (simp add: startup_def bind_io_def when_io_def emit_def return_io_def)

lemma train_epoch_teacher_no_grad:
  "filter teacher_grad_pass (fst (train_epoch env epoch s)) = []"
  by (simp add: train_epoch_def filter_fst_bind_io save_epoch_checkpoint_def when_io_def
      train_batches_filter_empty train_batch_teacher_no_grad split: sum.splits)

lemma train_epochs_teacher_no_grad:
  "filter teacher_grad_pass (fst (train_epochs env epochs s)) = []"
  by (induction epochs arbitrary: s)
     (simp_all add: filter_fst_bind_io train_epoch_teacher_no_grad split: sum.splits)

lemma train_batch_teacher_params:
  "snd (train_batch env epoch i b s) = Inr s' \<Longrightarrow> original_params s' = original_params s"
  by (drule train_batch_Inr) auto

lemma train_batches_teacher_params:
  "snd (train_batches env epoch i bs s) = Inr s' \<Longrightarrow> original_params s' = original_params s"
proof (induction bs arbitrary: i s)
  case Nil
  then show ?case by simp
next
  case (Cons b bs)
  from Cons.prems obtain s1 where
    s1: "snd (train_batch env epoch i b s) = Inr s1"
    and r: "snd (train_batches env epoch (i + 1) bs s1) = Inr s'"
    by (auto simp: snd_bind_io_Inr_iff)
  from Cons.IH [OF r] train_batch_teacher_params [OF s1] show ?case by simp
qed

lemma train_epoch_teacher_params:
  "snd (train_epoch env epoch s) = Inr s' \<Longrightarrow> original_params s' = original_params s"
  by (auto simp: train_epoch_def snd_bind_io_Inr_iff dest: train_batches_teacher_params)

lemma train_epochs_teacher_params:
  "snd (train_epochs env epochs s) = Inr s' \<Longrightarrow> original_params s' = original_params s"
proof (induction epochs arbitrary: s)
  case Nil
  then show ?case by simp
next
  case (Cons e es)
  from Cons.prems obtain s1 where
    s1: "snd (train_epoch env e s) = Inr s1"
    and r: "snd (train_epochs env es s1) = Inr s'"
    by (auto simp: snd_bind_io_Inr_iff)
  from Cons.IH [OF r] train_epoch_teacher_params [OF s1] show ?case by simp
qed

lemma merge_config_keeps:
  assumes "args k = Some v" "v \<noteq> PyNone"
  shows "merge_config items args k = Some v"
  using assms
proof (induction items arbitrary: args)
  case Nil
  then show ?case by simp
next
  case (Cons kv items)
  obtain key w where kv: "kv = (key, w)" by (cases kv)
  show ?case
  proof (cases "args key = None \<or> args key = Some PyNone")
    case True
    with Cons.prems have "key \<noteq> k" by auto
    with Cons.prems have "(args(key \<mapsto> w)) k = Some v" by simp
    then have "merge_config items (args(key \<mapsto> w)) k = Some v"
      using Cons.prems(2) by (rule Cons.IH)
    with True kv show ?thesis by simp
  next
    case False
    have "merge_config items args k = Some v"
      using Cons.prems by (rule Cons.IH)
    with False kv show ?thesis by auto
  qed
qed

lemma explicit_argument_wins:
  assumes "resolve_config path_exists omegaconf_load cli = Inr args"
    and "map_of cli k = Some v" and "v \<noteq> PyNone"
  shows "args k = Some v"
  using assms
  by (auto simp: resolve_config_def parse_args_def merge_config_keeps
      split: sum.splits option.splits pyval.splits if_splits)

lemma unset_argument_filled:
  "resolved_arg (\<lambda>p. True) (\<lambda>p. Inr [(''wandb_run_name'', PyStr ''run-1'')])
     [(''checkpoint_dir'', PyStr ''ckpt'')] ''wandb_run_name'' = Inr (Some (PyStr ''run-1''))"
  by (simp add: resolved_arg_def resolve_config_def parse_args_def parser_defaults_def)

section \<open>Facts about file names\<close>

lemma digit_char_inj:
  assumes "d < 10" "d' < 10" "digit_char d = digit_char d'"
  shows "d = d'"
proof -
  from assms(3) have "of_char (digit_char d) = (of_char (digit_char d') :: nat)" by simp
  with assms(1,2) show ?thesis by (simp add: digit_char_def)
qed

lemma str_nat_small: "n < 10 \<Longrightarrow> str_nat n = [digit_char n]"
  by (simp add: str_nat.simps)

lemma str_nat_large:
  "\<not> n < 10 \<Longrightarrow> str_nat n = str_nat (n div 10) @ [digit_char (n mod 10)]"
  by (subst str_nat.simps) simp

lemma str_nat_not_Nil: "str_nat n \<noteq> []"
  by (cases "n < 10") (simp_all add: str_nat_small str_nat_large)

lemma str_nat_inj: "str_nat n = str_nat m \<Longrightarrow> n = m"
proof (induction n arbitrary: m rule: str_nat.induct)
  case (1 n)
  show ?case
  proof (cases "n < 10")
    case True
    show ?thesis
    proof (cases "m < 10")
      case True
      with \<open>n < 10\<close> "1.prems" show ?thesis
        by (auto simp: str_nat_small dest: digit_char_inj)
    next
      case False
      with \<open>n < 10\<close> "1.prems" str_nat_not_Nil [of "m div 10"] show ?thesis
        by (simp add: str_nat_small str_nat_large)
    qed
  next
    case False
    show ?thesis
    proof (cases "m < 10")
      case True
      with False "1.prems" str_nat_not_Nil [of "n div 10"] show ?thesis
        by (simp add: str_nat_small str_nat_large)
    next
      case m: False
      from False m "1.prems" have
        a: "str_nat (n div 10) = str_nat (m div 10)"
        and b: "digit_char (n mod 10) = digit_char (m mod 10)"
        by (simp_all add: str_nat_large)
      from "1.IH" [OF False a] have "n div 10 = m div 10" .
      moreover from b have "n mod 10 = m mod 10"
        by (auto dest: digit_char_inj [rotated 2])
      ultimately show ?thesis
        by (metis div_mult_mod_eq)
    qed
  qed
qed

lemma step_path_inj [simp]: "step_path env n = step_path env m \<longleftrightarrow> n = m"
  by (auto simp: step_path_def dest: str_nat_inj)

lemma epoch_path_inj [simp]: "epoch_path env n = epoch_path env m \<longleftrightarrow> n = m"
  by (auto simp: epoch_path_def dest: str_nat_inj)

lemma step_path_neq_epoch_path [simp]: "step_path env n \<noteq> epoch_path env m"
  and step_path_neq_final_path [simp]: "step_path env n \<noteq> final_path env"
  and epoch_path_neq_final_path [simp]: "epoch_path env n \<noteq> final_path env"
  by (simp_all add: step_path_def epoch_path_def final_path_def)

lemma digit_char_eval:
  "digit_char 0 = CHR ''0''" "digit_char 1 = CHR ''1''" "digit_char 2 = CHR ''2''"
  "digit_char 3 = CHR ''3''" "digit_char 4 = CHR ''4''" "digit_char 5 = CHR ''5''"
  "digit_char 6 = CHR ''6''" "digit_char 7 = CHR ''7''" "digit_char 8 = CHR ''8''"
  "digit_char 9 = CHR ''9''" "digit_char (Suc 0) = CHR ''1''"
  "digit_char (Suc (Suc 0)) = CHR ''2''"
  by (simp_all add: digit_char_def char_of_eq_iff)

lemma multiples_350:
  "filter (\<lambda>n. int n mod 350 = 0) [1 ..< 1001] = [350, 700]"
proof (rule sorted_distinct_set_unique)
  show "sorted (filter (\<lambda>n. int n mod 350 = 0) [1 ..< 1001])"
    by (rule sorted_wrt_filter) simp
  show "distinct (filter (\<lambda>n. int n mod 350 = 0) [1 ..< 1001])"
    by simp
  show "sorted [350, 700 :: nat]" by simp
  show "distinct [350, 700 :: nat]" by simp
  have "\<And>n::nat. (1 \<le> n \<and> n < 1001 \<and> int n mod 350 = 0) \<longleftrightarrow> (n = 350 \<or> n = 700)"
    by presburger
  then show "set (filter (\<lambda>n. int n mod 350 = 0) [1 ..< 1001]) = set [350, 700]"
    by auto
qed

section \<open>The checkpoints of a run\<close>

lemma saved_paths_append [simp]: "saved_paths (xs @ ys) = saved_paths xs @ saved_paths ys"
  by (simp add: saved_paths_def)

lemma saved_paths_Nil [simp]: "saved_paths [] = []"
  by (simp add: saved_paths_def)

lemma train_batch_step: "snd (train_batch env epoch i b s) = Inr s' \<Longrightarrow> step s' = step s + 1"
  by (drule train_batch_Inr) auto

lemma train_batch_paths:
  assumes "snd (train_batch env epoch i b s) = Inr s'" "is_main_process env"
  shows "saved_paths (fst (train_batch env epoch i b s)) =
           map (step_path env) (filter (\<lambda>n. int n mod save_interval env = 0) [step s + 1])"
  using assms train_batch_step [OF assms(1)] train_batch_saves [of env epoch i b s]
  by (simp add: saved_paths_def)

lemma train_batches_paths:
  assumes "snd (train_batches env epoch i bs s) = Inr s'" "is_main_process env"
  shows "step s' = step s + length bs \<and>
         saved_paths (fst (train_batches env epoch i bs s)) =
           map (step_path env)
             (filter (\<lambda>n. int n mod save_interval env = 0) [step s + 1 ..< step s + length bs + 1])"
  using assms(1)
proof (induction bs arbitrary: i s)
  case Nil
  then show ?case by simp
next
  case (Cons b bs)
  from Cons.prems obtain s1 where
    s1: "snd (train_batch env epoch i b s) = Inr s1"
    and r: "snd (train_batches env epoch (i + 1) bs s1) = Inr s'"
    by (auto simp: snd_bind_io_Inr_iff)
  note st = train_batch_step [OF s1]
  note ih = Cons.IH [OF r]
  have u: "[step s + 1 ..< step s + length (b # bs) + 1] =
             (step s + 1) # [step s1 + 1 ..< step s1 + length bs + 1]"
  proof -
    have "step s + 1 < step s + length (b # bs) + 1" by simp
    from upt_conv_Cons [OF this]
    have x: "[step s + 1 ..< step s + length (b # bs) + 1] =
            (step s + 1) # [Suc (step s + 1) ..< step s + length (b # bs) + 1]" .
    have e1: "Suc (step s + 1) = step s1 + 1"
      and e2: "step s + length (b # bs) + 1 = step s1 + length bs + 1"
      using st by simp_all
    from x show ?thesis by (simp only: e1 e2)
  qed
  have "fst (train_batches env epoch i (b # bs) s) =
          fst (train_batch env epoch i b s) @ fst (train_batches env epoch (i + 1) bs s1)"
    using s1 by (simp add: fst_bind_io)
  then have "saved_paths (fst (train_batches env epoch i (b # bs) s)) =
          saved_paths (fst (train_batch env epoch i b s)) @
          saved_paths (fst (train_batches env epoch (i + 1) bs s1))"
    by simp
  also have "\<dots> = map (step_path env)
             (filter (\<lambda>n. int n mod save_interval env = 0)
                ((step s + 1) # [step s1 + 1 ..< step s1 + length bs + 1]))"
    using train_batch_paths [OF s1 assms(2)] ih by simp
  finally show ?case using ih st u by simp
qed

lemma save_epoch_checkpoint_eq:
  "is_main_process env \<Longrightarrow>
   save_epoch_checkpoint env epoch s =
     ([TorchSave (ema_params s) (epoch_path env (epoch + 1)),
       Print (''Saved EMA epoch checkpoint to '' @ epoch_path env (epoch + 1))], Inr ())"
  by (simp add: save_epoch_checkpoint_def when_io_def bind_io_def emit_def
      state_dict_def unwrap_model_def)

lemma train_epoch_Inr:
  assumes "snd (train_epoch env epoch s) = Inr s'"
  shows "\<exists>s1. snd (train_batches env epoch 0 (train_dataloader env epoch) s) = Inr s1 \<and>
              s' = s1\<lparr>total_loss := 0\<rparr>"
  using assms
  by (auto simp: train_epoch_def snd_bind_io_Inr_iff)

lemma train_epoch_paths:
  assumes "snd (train_epoch env epoch s) = Inr s'" "is_main_process env"
  shows "step s' = step s + length (train_dataloader env epoch) \<and>
         saved_paths (fst (train_epoch env epoch s)) =
           map (step_path env)
             (filter (\<lambda>n. int n mod save_interval env = 0)
                [step s + 1 ..< step s + length (train_dataloader env epoch) + 1])
           @ [epoch_path env (epoch + 1)]"
proof -
  from train_epoch_Inr [OF assms(1)] obtain s1 where
    s1: "snd (train_batches env epoch 0 (train_dataloader env epoch) s) = Inr s1"
    and s': "s' = s1\<lparr>total_loss := 0\<rparr>"
    by blast
  note p = train_batches_paths [OF s1 assms(2)]
  have "fst (train_epoch env epoch s) =
          Print (''Epoch '' @ str_nat (epoch + 1) @ ''/'' @ str_int (num_epochs env)) #
          fst (train_batches env epoch 0 (train_dataloader env epoch) s) @
          fst (save_epoch_checkpoint env epoch s1)"
    using s1 by (simp add: train_epoch_def fst_bind_io snd_bind_io
        save_epoch_checkpoint_eq [OF assms(2)])
  then show ?thesis
    using p s' by (simp add: saved_paths_def save_epoch_checkpoint_eq [OF assms(2)])
qed

lemma train_epochs_paths:
  assumes "snd (train_epochs env epochs s) = Inr s'" "is_main_process env"
  shows "step s' = step s + steps_in env epochs \<and>
         mset (saved_paths (fst (train_epochs env epochs s))) =
           mset (map (step_path env)
             (filter (\<lambda>n. int n mod save_interval env = 0)
                [step s + 1 ..< step s + steps_in env epochs + 1]))
           + mset (map (\<lambda>e. epoch_path env (e + 1)) epochs)"
  using assms(1)
proof (induction epochs arbitrary: s)
  case Nil
  then show ?case by (simp add: steps_in_def)
next
  case (Cons e es)
  from Cons.prems obtain s1 where
    s1: "snd (train_epoch env e s) = Inr s1"
    and r: "snd (train_epochs env es s1) = Inr s'"
    by (auto simp: snd_bind_io_Inr_iff)
  note p = train_epoch_paths [OF s1 assms(2)]
  note ih = Cons.IH [OF r]
  let ?n = "length (train_dataloader env e)"
  have n: "steps_in env (e # es) = ?n + steps_in env es"
    by (simp add: steps_in_def)
  have u: "[step s + 1 ..< step s + steps_in env (e # es) + 1] =
             [step s + 1 ..< step s + ?n + 1] @ [step s1 + 1 ..< step s1 + steps_in env es + 1]"
  proof -
    have "[step s + 1 ..< (step s + ?n + 1) + steps_in env es] =
            [step s + 1 ..< step s + ?n + 1] @
            [step s + ?n + 1 ..< (step s + ?n + 1) + steps_in env es]"
      by (rule upt_add_eq_append) simp
    then show ?thesis using p n by (simp add: add.assoc add.commute add.left_commute)
  qed
  have "fst (train_epochs env (e # es) s) = fst (train_epoch env e s) @ fst (train_epochs env es s1)"
    using s1 by (simp add: fst_bind_io)
  then show ?case
    using p ih n u by (simp add: add.assoc)
qed

lemma training_loop_Inr:
  "snd (training_loop env) = Inr s \<longleftrightarrow>
   snd (train_epochs env (epoch_range env) (initial_state env)) = Inr s"
  by (simp add: training_loop_def snd_bind_io startup_eq)

lemma fst_training_loop:
  "fst (training_loop env) =
     fst (startup env) @ fst (train_epochs env (epoch_range env) (initial_state env))"
  by (simp add: training_loop_def fst_bind_io startup_eq)

lemma saved_paths_startup [simp]: "saved_paths (fst (startup env)) = []"
  by (simp add: startup_eq saved_paths_def)

lemma train_paths_split:
  assumes "snd (train_consistency_distillation env) = Inr r" "is_main_process env"
  shows "saved_paths (fst (train_consistency_distillation env)) =
           saved_paths (fst (train_epochs env (epoch_range env) (initial_state env)))
           @ [final_path env]"
proof -
  from assms(1) obtain s where s: "snd (training_loop env) = Inr s"
    by (auto simp: train_consistency_distillation_def snd_bind_io_Inr_iff)
  have "fst (train_consistency_distillation env) =
          fst (training_loop env) @ fst (save_final env s) @
          (if use_wandb env then [WandbFinish] else [])"
    using s assms(2)
    by (simp add: train_consistency_distillation_def fst_bind_io snd_bind_io)
  moreover have "saved_paths (fst (save_final env s)) = [final_path env]"
    using assms(2)
    by (simp add: save_final_def fst_bind_io saved_paths_def)
  ultimately show ?thesis
    by (simp add: fst_training_loop saved_paths_def startup_eq)
qed

lemma train_paths:
  assumes "snd (train_consistency_distillation env) = Inr r" "is_main_process env"
  shows "mset (saved_paths (fst (train_consistency_distillation env))) =
           mset (map (step_path env)
             (filter (\<lambda>n. int n mod save_interval env = 0) [1 ..< total_steps env + 1]))
           + mset (map (\<lambda>e. epoch_path env (e + 1)) (epoch_range env))
           + {#final_path env#}"
proof -
  from assms(1) obtain s where s: "snd (training_loop env) = Inr s"
    by (auto simp: train_consistency_distillation_def snd_bind_io_Inr_iff)
  then have e: "snd (train_epochs env (epoch_range env) (initial_state env)) = Inr s"
    by (simp add: training_loop_Inr)
  have i: "step (initial_state env) = 0" by (simp add: initial_state_def)
  have "fst (train_consistency_distillation env) =
          fst (training_loop env) @ fst (save_final env s) @
          (if use_wandb env then [WandbFinish] else [])"
    using s assms(2)
    by (simp add: train_consistency_distillation_def fst_bind_io snd_bind_io)
  moreover have "saved_paths (fst (save_final env s)) = [final_path env]"
    using assms(2)
    by (simp add: save_final_def fst_bind_io saved_paths_def)
  ultimately have "saved_paths (fst (train_consistency_distillation env)) =
      saved_paths (fst (train_epochs env (epoch_range env) (initial_state env))) @ [final_path env]"
    by (simp add: fst_training_loop saved_paths_def startup_eq)
  with train_epochs_paths [OF e assms(2)] i show ?thesis
    by (simp add: total_steps_def)
qed



lemma update_ema_shapes:
  assumes "map length t = map length s"
  shows "\<exists>t'. update_ema t s d = Inr t' \<and> map length t' = map length t"
proof -
  from assms have "list_all2 (\<lambda>t s. length t = length s) t s"
    by (simp add: list_all2_conv_all_nth list_eq_iff_nth_eq)
  from update_ema_nth [OF this, of d] obtain t' where
    t': "update_ema t s d = Inr t'" "length t' = length t"
        "\<forall>i < length t. length (t' ! i) = length (t ! i)"
    by blast
  then have "map length t' = map length t"
    by (simp add: list_eq_iff_nth_eq)
  with t'(1) show ?thesis by blast
qed

lemma train_batch_completes:
  assumes si: "save_interval env \<noteq> 0"
    and fw: "\<And>ps ps' n t c c'. length (wan_forward env ps n t c (seq_len env)) =
                                  length (wan_forward env ps' n t c' (seq_len env))"
    and bw: "\<And>opt ps n t c v. map length (snd (backward_step env opt ps n t c v)) = map length ps"
    and inv: "map length (ema_params s) = map length (distilled_params s)"
  shows "\<exists>s'. snd (train_batch env epoch i b s) = Inr s' \<and>
              map length (ema_params s') = map length (distilled_params s')"
proof -
  have l1: "length (v_uncond_of env b s) = length (v_cond_of env b s)"
    by (simp add: v_uncond_of_def v_cond_of_def fw [of "original_params s" _ _ _ "original_params s"])
  obtain v where v: "cfg_combine (v_uncond_of env b s) (v_cond_of env b s) (cfg_scale env) = Inr v"
    and lv: "length v = length (v_uncond_of env b s)"
    using l1 by (auto simp: cfg_combine_def t_sub_def t_add_def t_smul_def)
  have l2: "length (v_student_of env b s) = length v"
    using lv by (simp add: v_uncond_of_def v_student_of_def
        fw [of "distilled_params s" _ _ "context_cond env b" "original_params s" "context_null env b"])
  then obtain loss where loss: "mse_loss (v_student_of env b s) v = Inr loss"
    by (simp add: mse_loss_def)
  let ?st = "snd (backward_step env (optimizer_state s) (distilled_params s)
                (batch_noise env b s) (batch_timestep env b) (context_cond env b) v)"
  have "map length (ema_params s) = map length ?st"
    using inv bw by simp
  from update_ema_shapes [OF this, of ema_decay] obtain ema' where
    e: "update_ema (ema_params s) ?st ema_decay = Inr ema'"
    and le: "map length ema' = map length (ema_params s)"
    by blast
  have "snd (train_batch env epoch i b s) =
          Inr (s\<lparr>optimizer_state :=
                    fst (backward_step env (optimizer_state s) (distilled_params s)
                      (batch_noise env b s) (batch_timestep env b) (context_cond env b) v),
                  distilled_params := ?st,
                  ema_params := ema',
                  total_loss := total_loss s + loss,
                  step := step s + 1\<rparr>)"
    using v loss e si
    by (simp add: batch_defs snd_bind_io v_student_of_def case_prod_beta)
  moreover have "map length ema' = map length ?st"
    using le inv bw by simp
  ultimately show ?thesis by simp
qed

section \<open>Runs that complete\<close>

lemma train_batches_completes:
  assumes si: "save_interval env \<noteq> 0"
    and fw: "\<And>ps ps' n t c c'. length (wan_forward env ps n t c (seq_len env)) =
                                  length (wan_forward env ps' n t c' (seq_len env))"
    and bw: "\<And>opt ps n t c v. map length (snd (backward_step env opt ps n t c v)) = map length ps"
    and inv: "map length (ema_params s) = map length (distilled_params s)"
  shows "\<exists>s'. snd (train_batches env epoch i bs s) = Inr s' \<and>
              map length (ema_params s') = map length (distilled_params s')"
  using inv
proof (induction bs arbitrary: i s)
  case Nil
  then show ?case by simp
next
  case (Cons b bs)
  from train_batch_completes [OF si fw bw Cons.prems, of epoch i b] obtain s1 where
    s1: "snd (train_batch env epoch i b s) = Inr s1"
    and i1: "map length (ema_params s1) = map length (distilled_params s1)"
    by blast
  from Cons.IH [OF i1, of "i + 1"] s1 show ?case
    by (simp add: snd_bind_io)
qed

lemma train_epoch_completes:
  assumes si: "save_interval env \<noteq> 0"
    and fw: "\<And>ps ps' n t c c'. length (wan_forward env ps n t c (seq_len env)) =
                                  length (wan_forward env ps' n t c' (seq_len env))"
    and bw: "\<And>opt ps n t c v. map length (snd (backward_step env opt ps n t c v)) = map length ps"
    and inv: "map length (ema_params s) = map length (distilled_params s)"
  shows "\<exists>s'. snd (train_epoch env epoch s) = Inr s' \<and>
              map length (ema_params s') = map length (distilled_params s')"
proof -
  from train_batches_completes [OF si fw bw inv, of epoch 0 "train_dataloader env epoch"]
  obtain s1 where
    s1: "snd (train_batches env epoch 0 (train_dataloader env epoch) s) = Inr s1"
    and i1: "map length (ema_params s1) = map length (distilled_params s1)"
    by blast
  then show ?thesis
    by (simp add: train_epoch_def snd_bind_io save_epoch_checkpoint_def when_io_def)
qed

lemma train_epochs_completes:
  assumes si: "save_interval env \<noteq> 0"
    and fw: "\<And>ps ps' n t c c'. length (wan_forward env ps n t c (seq_len env)) =
                                  length (wan_forward env ps' n t c' (seq_len env))"
    and bw: "\<And>opt ps n t c v. map length (snd (backward_step env opt ps n t c v)) = map length ps"
    and inv: "map length (ema_params s) = map length (distilled_params s)"
  shows "\<exists>s'. snd (train_epochs env epochs s) = Inr s' \<and>
              map length (ema_params s') = map length (distilled_params s')"
  using inv
proof (induction epochs arbitrary: s)
  case Nil
  then show ?case by simp
next
  case (Cons e es)
  from train_epoch_completes [OF si fw bw Cons.prems, of e] obtain s1 where
    s1: "snd (train_epoch env e s) = Inr s1"
    and i1: "map length (ema_params s1) = map length (distilled_params s1)"
    by blast
  from Cons.IH [OF i1] s1 show ?case
    by (simp add: snd_bind_io)
qed

lemma train_completes:
  assumes si: "save_interval env \<noteq> 0"
    and fw: "\<And>ps ps' n t c c'. length (wan_forward env ps n t c (seq_len env)) =
                                  length (wan_forward env ps' n t c' (seq_len env))"
    and bw: "\<And>opt ps n t c v. map length (snd (backward_step env opt ps n t c v)) = map length ps"
  shows "\<exists>r. snd (train_consistency_distillation env) = Inr r"
proof -
  have "map length (ema_params (initial_state env)) = map length (distilled_params (initial_state env))"
    by (simp add: initial_state_def)
  from train_epochs_completes [OF si fw bw this, of "epoch_range env"] obtain s where
    "snd (train_epochs env (epoch_range env) (initial_state env)) = Inr s"
    by blast
  then have "snd (training_loop env) = Inr s"
    by (simp add: training_loop_Inr)
  then show ?thesis
    by (simp add: train_consistency_distillation_def snd_bind_io)
qed

lemma cadence_env_completes: "\<exists>r. snd (train_consistency_distillation cadence_env) = Inr r"
  by (rule train_completes) (simp_all add: cadence_env_def example_env_def)

lemma cadence_env_loop_completes:
  "\<exists>s. snd (training_loop cadence_env) = Inr s \<and> step s = 1000"
proof -
  from cadence_env_completes obtain s where s: "snd (training_loop cadence_env) = Inr s"
    by (auto simp: train_consistency_distillation_def snd_bind_io_Inr_iff)
  then have e: "snd (train_epochs cadence_env (epoch_range cadence_env)
                      (initial_state cadence_env)) = Inr s"
    by (simp add: training_loop_Inr)
  have a: "is_main_process cadence_env"
    by (simp add: cadence_env_def example_env_def)
  have "steps_in cadence_env (epoch_range cadence_env) = 1000"
    by (simp add: steps_in_def epoch_range_def cadence_env_def example_env_def numeral_2_eq_2)
  with train_epochs_paths [OF e a] have "step s = 1000"
    by (simp add: initial_state_def)
  with s show ?thesis by blast
qed

section \<open>Where a checkpoint comes from\<close>

lemma train_batch_save_mem:
  assumes "(c, p) \<in> set (saves (fst (train_batch env epoch i b s)))"
  shows "\<exists>s'. snd (train_batch env epoch i b s) = Inr s' \<and> c = ema_params s' \<and>
              p = step_path env (step s')"
  using assms unfolding train_batch_saves
  by (cases "snd (train_batch env epoch i b s)") (auto split: if_splits)

lemma train_batches_single:
  "train_batches env epoch i [b] s = train_batch env epoch i b s"
proof -
  have "train_batches env epoch (i + 1) [] = return_io"
    by (rule ext) simp
  then show ?thesis by simp
qed

lemma train_epochs_single: "train_epochs env [e] s = train_epoch env e s"
proof -
  have "train_epochs env [] = return_io"
    by (rule ext) simp
  then show ?thesis by simp
qed

lemma train_batches_save_prefix:
  assumes "(c, p) \<in> set (saves (fst (train_batches env epoch i bs s)))"
  shows "\<exists>k s'. 0 < k \<and> k \<le> length bs \<and>
           snd (train_batches env epoch i (take k bs) s) = Inr s' \<and>
           c = ema_params s' \<and> p = step_path env (step s')"
  using assms
proof (induction bs rule: rev_induct)
  case Nil
  then show ?case by simp
next
  case (snoc b bs)
  have t: "train_batches env epoch i (bs @ [b]) s =
             bind_io (train_batches env epoch i bs s) (train_batch env epoch (i + length bs) b)"
  proof -
    have "train_batches env epoch (i + length bs) [b] = train_batch env epoch (i + length bs) b"
      by (rule ext) (rule train_batches_single)
    then show ?thesis by (simp add: train_batches_append)
  qed
  from snoc.prems consider
    (old) "(c, p) \<in> set (saves (fst (train_batches env epoch i bs s)))"
  | (new) s1 where "snd (train_batches env epoch i bs s) = Inr s1"
      "(c, p) \<in> set (saves (fst (train_batch env epoch (i + length bs) b s1)))"
    unfolding t by (auto simp: fst_bind_io split: sum.splits)
  then show ?case
  proof cases
    case old
    from snoc.IH [OF this] obtain k s' where
      "0 < k" "k \<le> length bs" "snd (train_batches env epoch i (take k bs) s) = Inr s'"
      "c = ema_params s'" "p = step_path env (step s')"
      by blast
    then have "0 < k \<and> k \<le> length (bs @ [b]) \<and>
           snd (train_batches env epoch i (take k (bs @ [b])) s) = Inr s' \<and>
           c = ema_params s' \<and> p = step_path env (step s')"
      by simp
    then show ?thesis by blast
  next
    case new
    from train_batch_save_mem [OF new(2)] obtain s' where
      s': "snd (train_batch env epoch (i + length bs) b s1) = Inr s'"
      "c = ema_params s'" "p = step_path env (step s')"
      by blast
    have "snd (train_batches env epoch i (bs @ [b]) s) = Inr s'"
      unfolding t using new(1) s'(1) by (simp add: snd_bind_io)
    with s'(2,3) have "0 < length (bs @ [b]) \<and> length (bs @ [b]) \<le> length (bs @ [b]) \<and>
           snd (train_batches env epoch i (take (length (bs @ [b])) (bs @ [b])) s) = Inr s' \<and>
           c = ema_params s' \<and> p = step_path env (step s')"
      by simp
    then show ?thesis by blast
  qed
qed

lemma train_epoch_save:
  assumes "(c, p) \<in> set (saves (fst (train_epoch env epoch s)))"
  shows "(\<exists>k s'. 0 < k \<and> k \<le> length (train_dataloader env epoch) \<and>
            snd (train_batches env epoch 0 (take k (train_dataloader env epoch)) s) = Inr s' \<and>
            c = ema_params s' \<and> p = step_path env (step s')) \<or>
         (\<exists>s'. snd (train_batches env epoch 0 (train_dataloader env epoch) s) = Inr s' \<and>
            c = ema_params s' \<and> p = epoch_path env (epoch + 1))"
proof -
  from assms consider
    (inner) "(c, p) \<in> set (saves (fst (train_batches env epoch 0 (train_dataloader env epoch) s)))"
  | (boundary) s1 where "snd (train_batches env epoch 0 (train_dataloader env epoch) s) = Inr s1"
      "(c, p) \<in> set (saves (fst (save_epoch_checkpoint env epoch s1)))"
    by (auto simp: train_epoch_def fst_bind_io snd_bind_io split: sum.splits)
  then show ?thesis
  proof cases
    case inner
    from train_batches_save_prefix [OF this] show ?thesis by blast
  next
    case boundary
    from boundary(2) have "c = ema_params s1 \<and> p = epoch_path env (epoch + 1)"
      by (auto simp: save_epoch_checkpoint_def when_io_def fst_bind_io state_dict_def
          unwrap_model_def split: if_splits)
    with boundary(1) show ?thesis by blast
  qed
qed

lemma train_epochs_save:
  assumes "(c, p) \<in> set (saves (fst (train_epochs env [0 ..< n] s)))"
  shows "\<exists>e s1. e < n \<and> snd (train_epochs env [0 ..< e] s) = Inr s1 \<and>
           (c, p) \<in> set (saves (fst (train_epoch env e s1)))"
  using assms
proof (induction n)
  case 0
  then show ?case by simp
next
  case (Suc n)
  have t: "train_epochs env [0 ..< Suc n] s =
             bind_io (train_epochs env [0 ..< n] s) (train_epoch env n)"
  proof -
    have "train_epochs env [n] = train_epoch env n"
      by (rule ext) (rule train_epochs_single)
    then show ?thesis by (simp add: train_epochs_append)
  qed
  from Suc.prems consider
    (old) "(c, p) \<in> set (saves (fst (train_epochs env [0 ..< n] s)))"
  | (new) s1 where "snd (train_epochs env [0 ..< n] s) = Inr s1"
      "(c, p) \<in> set (saves (fst (train_epoch env n s1)))"
    unfolding t by (auto simp: fst_bind_io split: sum.splits)
  then show ?case
  proof cases
    case old
    from Suc.IH [OF this] obtain e s1 where
      "e < n" "snd (train_epochs env [0 ..< e] s) = Inr s1"
      "(c, p) \<in> set (saves (fst (train_epoch env e s1)))"
      by blast
    then have "e < Suc n \<and> snd (train_epochs env [0 ..< e] s) = Inr s1 \<and>
           (c, p) \<in> set (saves (fst (train_epoch env e s1)))"
      by simp
    then show ?thesis by blast
  next
    case new
    then have "n < Suc n \<and> snd (train_epochs env [0 ..< n] s) = Inr s1 \<and>
           (c, p) \<in> set (saves (fst (train_epoch env n s1)))"
      by simp
    then show ?thesis by blast
  qed
qed

lemma run_prefix_Inr:
  "snd (run_prefix env e k) = Inr s \<longleftrightarrow>
   (\<exists>s1. snd (train_epochs env [0 ..< e] (initial_state env)) = Inr s1 \<and>
         snd (train_batches env e 0 (take k (train_dataloader env e)) s1) = Inr s)"
  by (simp add: run_prefix_def snd_bind_io_Inr_iff startup_eq)

section \<open>The claims\<close>

text \<open>
  C1. In every iteration that completes, the target the student is trained against is
  the classifier-free-guidance combination of the teacher's two predictions, element by
  element \<^verbatim>\<open>uncond + cfg_scale * (cond - uncond)\<close>, and it is what the optimizer
  step receives. Whether or not the iteration completes, lines 129-147 yield that
  combination of the two passes (or its shape error). For the scalars 1, 3 and 7.5 the
  combination is 16.
\<close>

theorem cfg_target:
  "(snd (train_batch env epoch i b s) = Inr s' \<longrightarrow>
     (\<exists>v_teacher.
        cfg_combine (v_uncond_of env b s) (v_cond_of env b s) (cfg_scale env) = Inr v_teacher \<and>
        length v_teacher = length (v_uncond_of env b s) \<and>
        (\<forall>k < length v_teacher.
           v_teacher ! k =
             v_uncond_of env b s ! k + cfg_scale env * (v_cond_of env b s ! k - v_uncond_of env b s ! k)) \<and>
        (optimizer_state s', distilled_params s') =
          backward_step env (optimizer_state s) (distilled_params s)
            (batch_noise env b s) (batch_timestep env b) (context_cond env b) v_teacher)) \<and>
   snd (teacher_prediction env noise timestep ctx ctx_null s0) =
     cfg_combine (wan_forward env (original_params s0) noise timestep ctx_null (seq_len env))
       (wan_forward env (original_params s0) noise timestep ctx (seq_len env)) (cfg_scale env) \<and>
   cfg_combine [1] [3] (75 / 10) = Inr [16]"
proof (intro conjI impI)
  show "snd (teacher_prediction env noise timestep ctx ctx_null s0) =
     cfg_combine (wan_forward env (original_params s0) noise timestep ctx_null (seq_len env))
       (wan_forward env (original_params s0) noise timestep ctx (seq_len env)) (cfg_scale env)"
    by (simp add: teacher_prediction_def no_grad_def call_model_def snd_bind_io)
next
  assume "snd (train_batch env epoch i b s) = Inr s'"
  from train_batch_Inr [OF this] obtain v_teacher loss ema' where
    v: "cfg_combine (v_uncond_of env b s) (v_cond_of env b s) (cfg_scale env) = Inr v_teacher"
    and s': "s' = s\<lparr>optimizer_state :=
                    fst (backward_step env (optimizer_state s) (distilled_params s)
                      (batch_noise env b s) (batch_timestep env b) (context_cond env b) v_teacher),
                  distilled_params :=
                    snd (backward_step env (optimizer_state s) (distilled_params s)
                      (batch_noise env b s) (batch_timestep env b) (context_cond env b) v_teacher),
                  ema_params := ema',
                  total_loss := total_loss s + loss,
                  step := step s + 1\<rparr>"
    by blast
  from cfg_combine_nth [OF v] s' v
  show "\<exists>v_teacher.
        cfg_combine (v_uncond_of env b s) (v_cond_of env b s) (cfg_scale env) = Inr v_teacher \<and>
        length v_teacher = length (v_uncond_of env b s) \<and>
        (\<forall>k < length v_teacher.
           v_teacher ! k =
             v_uncond_of env b s ! k + cfg_scale env * (v_cond_of env b s ! k - v_uncond_of env b s ! k)) \<and>
        (optimizer_state s', distilled_params s') =
          backward_step env (optimizer_state s) (distilled_params s)
            (batch_noise env b s) (batch_timestep env b) (context_cond env b) v_teacher"
    by simp
next
  show "cfg_combine [1] [3] (75 / 10) = Inr [16]"
    by (simp add: cfg_combine_def t_sub_def t_add_def t_smul_def)
qed

theorem cfg_target_witness:
  "\<exists>s'. snd (train_batch example_env 0 0 example_batch (initial_state example_env)) = Inr s' \<and>
     v_uncond_of example_env example_batch (initial_state example_env) = [1] \<and>
     v_cond_of example_env example_batch (initial_state example_env) = [3] \<and>
     (optimizer_state s', distilled_params s') =
        backward_step example_env (optimizer_state (initial_state example_env))
          (distilled_params (initial_state example_env))
          (batch_noise example_env example_batch (initial_state example_env))
          (batch_timestep example_env example_batch) (context_cond example_env example_batch) [16]"
proof -
  have "\<exists>s'. snd (train_batch example_env 0 0 example_batch (initial_state example_env)) = Inr s'"
    by (simp add: run_defs example_env_def example_batch_def)
  then obtain s' where
    h: "snd (train_batch example_env 0 0 example_batch (initial_state example_env)) = Inr s'" ..
  have u: "v_uncond_of example_env example_batch (initial_state example_env) = [1]"
    and c: "v_cond_of example_env example_batch (initial_state example_env) = [3]"
    by (simp_all add: run_defs example_env_def example_batch_def)
  have k: "cfg_scale example_env = 75 / 10"
    by (simp add: example_env_def)
  from cfg_target [of example_env 0 0 example_batch "initial_state example_env" s'] h
  show ?thesis
    unfolding u c k by (auto simp: cfg_combine_def t_sub_def t_add_def t_smul_def)
qed

text \<open>
  C2. For every decay and every state whose EMA and student parameter sets have the
  same shapes, the EMA update succeeds without an event, sets every EMA element to
  \<^verbatim>\<open>d * ema_old + (1 - d) * student\<close>, and leaves the student's parameters as they
  were.
\<close>

theorem ema_update_formula:
  assumes "list_all2 (\<lambda>t s. length t = length s) (ema_params s) (distilled_params s)"
  shows "\<exists>s'. run_update_ema d s = ([], Inr s') \<and>
           distilled_params s' = distilled_params s \<and>
           length (ema_params s') = length (ema_params s) \<and>
           (\<forall>i < length (ema_params s).
              length (ema_params s' ! i) = length (ema_params s ! i) \<and>
              (\<forall>j < length (ema_params s ! i).
                 ema_params s' ! i ! j =
                   d * ema_params s ! i ! j + (1 - d) * distilled_params s ! i ! j))"
proof -
  from update_ema_nth [OF assms, of d] obtain t' where
    t': "update_ema (ema_params s) (distilled_params s) d = Inr t'"
        "length t' = length (ema_params s)"
        "\<forall>i < length (ema_params s). length (t' ! i) = length (ema_params s ! i) \<and>
           (\<forall>j < length (ema_params s ! i).
              t' ! i ! j = d * ema_params s ! i ! j + (1 - d) * distilled_params s ! i ! j)"
    by blast
  have "run_update_ema d s = ([], Inr (s\<lparr>ema_params := t'\<rparr>))"
    using t'(1) by (simp add: run_update_ema_def return_io_def)
  then show ?thesis using t'(2,3) by simp
qed

theorem ema_update_formula_witness:
  "list_all2 (\<lambda>t s. length t = length s) (ema_params example_state) (distilled_params example_state) \<and>
   (\<exists>s'. run_update_ema (1 / 2) example_state = ([], Inr s') \<and>
      distilled_params s' = [[3, 4], [5]] \<and> ema_params s' = [[2, 3], [3]])"
proof -
  have h: "list_all2 (\<lambda>t s. length t = length s) (ema_params example_state)
             (distilled_params example_state)"
    by (simp add: example_state_def)
  from ema_update_formula [OF h, of "1 / 2"] obtain s' where
    s': "run_update_ema (1 / 2) example_state = ([], Inr s')"
        "distilled_params s' = distilled_params example_state"
    by blast
  have "run_update_ema (1 / 2) example_state =
          ([], Inr (example_state\<lparr>ema_params := [[2, 3], [3]]\<rparr>))"
    by (simp add: run_update_ema_def ema_param_def return_io_def example_state_def)
  with s' h show ?thesis by (simp add: example_state_def)
qed

text \<open>
  C8. When \<^verbatim>\<open>config.sample_neg_prompt\<close> is falsy (\<^verbatim>\<open>None\<close>, the empty string, ...),
  line 99 yields the empty string without raising, and the unconditional pass is
  conditioned on the encoding of empty strings, one per prompt of the batch.
\<close>

theorem negative_prompt_default:
  assumes "\<not> truthy (sample_neg_prompt env)"
  shows "negative_prompt env = PyStr [] \<and>
         context_null env b = text_encoder env (replicate (length (text_prompts b)) (PyStr []))"
  using assms by (simp add: negative_prompt_def context_null_def py_or_def)

theorem negative_prompt_default_witness:
  "\<not> truthy (sample_neg_prompt example_env) \<and>
   negative_prompt example_env = PyStr [] \<and>
   context_null example_env example_batch = [[0]]"
  using negative_prompt_default [of example_env example_batch]
  by (simp add: example_env_def example_batch_def)

text \<open>
  C3 (as amended). In a process that is not the main one, the run makes no wandb call
  and writes no checkpoint, whether it completes or raises; its one effect on the file
  system is the \<^verbatim>\<open>os.makedirs(output_dir, exist_ok=True)\<close> of line 57, which every
  process performs.
\<close>

theorem secondary_io_effects:
  assumes "\<not> is_main_process env"
  shows "filter is_io_effect (fst (train_consistency_distillation env)) = [MakeDirs (output_dir env)]"
  using assms
  by (simp add: train_consistency_distillation_def training_loop_def filter_fst_bind_io
      startup_eq train_epochs_secondary save_final_def split: sum.splits)

theorem secondary_io_effects_witness:
  "\<not> is_main_process secondary_env \<and>
   filter is_io_effect (fst (train_consistency_distillation secondary_env)) = [MakeDirs ''out'']"
  using secondary_io_effects [of secondary_env]
  by (simp add: secondary_env_def example_env_def)

text \<open>
  C3 as stated fails: the secondary process of the example creates the output directory.
\<close>

theorem secondary_creates_directory:
  "\<not> is_main_process secondary_env \<and>
   MakeDirs ''out'' \<in> set (fst (train_consistency_distillation secondary_env))"
  by (simp add: train_consistency_distillation_def training_loop_def fst_bind_io
      startup_eq secondary_env_def example_env_def)

text \<open>
  C5. The claim's second half fails on the code: with \<^verbatim>\<open>--num_epochs\<close> omitted and
  a configuration file that sets \<^verbatim>\<open>num_epochs: 20\<close>, the resolved value is the argparse
  default 10, because the default is not \<^verbatim>\<open>None\<close> and line 239 fills only \<^verbatim>\<open>None\<close>.
\<close>

theorem config_default_not_overridden:
  "resolved_arg (\<lambda>p. True) (\<lambda>p. Inr [(''num_epochs'', PyInt 20)])
     [(''checkpoint_dir'', PyStr ''ckpt'')] ''num_epochs'' = Inr (Some (PyInt 10))"
  by (simp add: resolved_arg_def resolve_config_def parse_args_def parser_defaults_def)

text \<open>
  C6. No forward pass of the teacher runs with gradient tracking on (each iteration
  makes two, both under \<^verbatim>\<open>torch.no_grad()\<close>), and at every point of the loops and
  after them the teacher's parameters are the ones the caller passed in.
\<close>

theorem teacher_never_mutated:
  "filter teacher_grad_pass (fst (train_consistency_distillation env)) = [] \<and>
   fst (teacher_prediction env noise timestep ctx ctx_null s0) =
     [Forward OriginalModel False, Forward OriginalModel False] \<and>
   (snd (run_prefix env e k) = Inr s \<longrightarrow> original_params s = original_model env) \<and>
   (snd (training_loop env) = Inr s' \<longrightarrow> original_params s' = original_model env)"
proof (intro conjI impI)
  show "filter teacher_grad_pass (fst (train_consistency_distillation env)) = []"
    by (simp add: train_consistency_distillation_def training_loop_def filter_fst_bind_io
        startup_eq train_epochs_teacher_no_grad save_final_def when_io_def split: sum.splits)
  show "fst (teacher_prediction env noise timestep ctx ctx_null s0) =
     [Forward OriginalModel False, Forward OriginalModel False]"
    by (simp add: teacher_prediction_def no_grad_def call_model_def fst_bind_io snd_bind_io)
next
  assume "snd (run_prefix env e k) = Inr s"
  then obtain s1 where
    a: "snd (train_epochs env [0 ..< e] (initial_state env)) = Inr s1"
    and b: "snd (train_batches env e 0 (take k (train_dataloader env e)) s1) = Inr s"
    by (auto simp: run_prefix_def snd_bind_io_Inr_iff startup_eq)
  from train_epochs_teacher_params [OF a] train_batches_teacher_params [OF b]
  show "original_params s = original_model env"
    by (simp add: initial_state_def)
next
  assume "snd (training_loop env) = Inr s'"
  then have "snd (train_epochs env (epoch_range env) (initial_state env)) = Inr s'"
    by (auto simp: training_loop_def snd_bind_io_Inr_iff startup_eq)
  from train_epochs_teacher_params [OF this]
  show "original_params s' = original_model env"
    by (simp add: initial_state_def)
qed

theorem teacher_never_mutated_witness:
  "filter teacher_grad_pass (fst (train_consistency_distillation example_env)) = [] \<and>
   (\<exists>s. snd (run_prefix example_env 1 1) = Inr s \<and> original_params s = [[1]]) \<and>
   (\<exists>s'. snd (training_loop example_env) = Inr s' \<and> original_params s' = [[1]])"
proof -
  have a: "\<exists>s. snd (run_prefix example_env 1 1) = Inr s"
    by (simp add: run_prefix_def run_defs example_env_def example_batch_def upt_rec)
  have b: "\<exists>s'. snd (training_loop example_env) = Inr s'"
    by (simp add: run_defs example_env_def example_batch_def upt_rec)
  from a obtain s where s: "snd (run_prefix example_env 1 1) = Inr s" ..
  from b obtain s' where s': "snd (training_loop example_env) = Inr s'" ..
  have m: "original_model example_env = [[1]]" by (simp add: example_env_def)
  from teacher_never_mutated [of example_env _ _ _ _ _ 1 1 s s'] s s' m
  show ?thesis by auto
qed

text \<open>
  C9. In every iteration that completes, the EMA update reads the student's parameters
  as the optimizer step of that iteration left them: the new EMA parameters are
  \<^verbatim>\<open>update_ema\<close> of the old ones and the new student, element by element
  \<^verbatim>\<open>0.995 * ema_old + 0.005 * student_new\<close>.
\<close>

theorem ema_tracks_updated_student:
  assumes "snd (train_batch env epoch i b s) = Inr s'"
  shows "\<exists>v_teacher.
           cfg_combine (v_uncond_of env b s) (v_cond_of env b s) (cfg_scale env) = Inr v_teacher \<and>
           distilled_params s' =
             snd (backward_step env (optimizer_state s) (distilled_params s)
                    (batch_noise env b s) (batch_timestep env b) (context_cond env b) v_teacher) \<and>
           update_ema (ema_params s) (distilled_params s') ema_decay = Inr (ema_params s') \<and>
           (\<forall>k < min (length (ema_params s)) (length (distilled_params s')).
              \<forall>j < length (ema_params s ! k).
                ema_params s' ! k ! j =
                  ema_decay * ema_params s ! k ! j + (1 - ema_decay) * distilled_params s' ! k ! j)"
proof -
  from train_batch_Inr [OF assms] obtain v_teacher loss ema' where
    v: "cfg_combine (v_uncond_of env b s) (v_cond_of env b s) (cfg_scale env) = Inr v_teacher"
    and u: "update_ema (ema_params s)
             (snd (backward_step env (optimizer_state s) (distilled_params s)
                (batch_noise env b s) (batch_timestep env b) (context_cond env b) v_teacher))
             ema_decay = Inr ema'"
    and s': "s' = s\<lparr>optimizer_state :=
                    fst (backward_step env (optimizer_state s) (distilled_params s)
                      (batch_noise env b s) (batch_timestep env b) (context_cond env b) v_teacher),
                  distilled_params :=
                    snd (backward_step env (optimizer_state s) (distilled_params s)
                      (batch_noise env b s) (batch_timestep env b) (context_cond env b) v_teacher),
                  ema_params := ema',
                  total_loss := total_loss s + loss,
                  step := step s + 1\<rparr>"
    by blast
  have d: "distilled_params s' =
             snd (backward_step env (optimizer_state s) (distilled_params s)
                    (batch_noise env b s) (batch_timestep env b) (context_cond env b) v_teacher)"
    and e: "ema_params s' = ema'"
    using s' by simp_all
  have u': "update_ema (ema_params s) (distilled_params s') ema_decay = Inr (ema_params s')"
    using u d e by simp
  from update_ema_Inr_nth [OF u']
  have "\<forall>k < min (length (ema_params s)) (length (distilled_params s')).
              \<forall>j < length (ema_params s ! k).
                ema_params s' ! k ! j =
                  ema_decay * ema_params s ! k ! j + (1 - ema_decay) * distilled_params s' ! k ! j"
    by (auto split: if_splits)
  with v d u' show ?thesis by blast
qed

theorem ema_tracks_updated_student_witness:
  "\<exists>s'. snd (train_batch example_env 0 0 example_batch (initial_state example_env)) = Inr s' \<and>
      distilled_params (initial_state example_env) = [[0]] \<and>
      ema_params (initial_state example_env) = [[0]] \<and>
      distilled_params s' = [[1]] \<and>
      ema_params s' = [[1 / 200]]"
proof -
  have "\<exists>s'. snd (train_batch example_env 0 0 example_batch (initial_state example_env)) = Inr s'
          \<and> distilled_params s' = [[1]] \<and> ema_params s' = [[1 / 200]]"
    by (simp add: run_defs example_env_def example_batch_def)
  then obtain s' where
    h: "snd (train_batch example_env 0 0 example_batch (initial_state example_env)) = Inr s'"
    and r: "distilled_params s' = [[1]]" "ema_params s' = [[1 / 200]]"
    by blast
  have i: "distilled_params (initial_state example_env) = [[0]]"
     "ema_params (initial_state example_env) = [[0]]"
    by (simp_all add: initial_state_def example_env_def)
  from ema_tracks_updated_student [OF h] h r i show ?thesis by blast
qed

text \<open>
  C10. The function returns the (unwrapped) EMA model of the state the loops end in,
  whenever they complete; in the example run that differs from the student's parameters.
\<close>

theorem returns_ema_model:
  "snd (train_consistency_distillation env) =
     (case snd (training_loop env) of Inl e \<Rightarrow> Inl e | Inr s \<Rightarrow> Inr (ema_params s)) \<and>
   (\<exists>s. snd (training_loop example_env) = Inr s \<and>
        snd (train_consistency_distillation example_env) = Inr (ema_params s) \<and>
        ema_params s \<noteq> distilled_params s)"
proof
  show "snd (train_consistency_distillation env) =
     (case snd (training_loop env) of Inl e \<Rightarrow> Inl e | Inr s \<Rightarrow> Inr (ema_params s))"
    by (simp add: train_consistency_distillation_def snd_bind_io unwrap_model_def
        split: sum.splits)
  show "\<exists>s. snd (training_loop example_env) = Inr s \<and>
        snd (train_consistency_distillation example_env) = Inr (ema_params s) \<and>
        ema_params s \<noteq> distilled_params s"
    by (simp add: run_defs example_env_def example_batch_def upt_rec)
qed

text \<open>
  C4. In the main process, with \<^verbatim>\<open>save_interval = 350\<close>, a run whose loops end
  with the step counter at 1000 has written exactly these files, each once: the step
  checkpoints of steps 350 and 700, one epoch checkpoint per epoch, and the final
  checkpoint; no two of the paths are equal, and the final checkpoint is written last.
\<close>

theorem checkpoint_cadence:
  assumes "is_main_process env" and "save_interval env = 350"
    and "snd (training_loop env) = Inr s" and "step s = 1000"
  shows "mset (saved_paths (fst (train_consistency_distillation env))) =
           mset ([step_path env 350, step_path env 700]
                 @ map (\<lambda>e. epoch_path env (e + 1)) (epoch_range env)
                 @ [final_path env]) \<and>
         distinct (saved_paths (fst (train_consistency_distillation env))) \<and>
         last (saved_paths (fst (train_consistency_distillation env))) = final_path env"
proof -
  let ?canon = "[step_path env 350, step_path env 700]
                 @ map (\<lambda>e. epoch_path env (e + 1)) (epoch_range env)
                 @ [final_path env]"
  from assms(3) have e: "snd (train_epochs env (epoch_range env) (initial_state env)) = Inr s"
    by (simp add: training_loop_Inr)
  from train_epochs_paths [OF e assms(1)] assms(4)
  have t: "total_steps env = 1000"
    by (simp add: total_steps_def initial_state_def)
  from assms(3) have r: "snd (train_consistency_distillation env) = Inr (ema_params s)"
    by (simp add: train_consistency_distillation_def snd_bind_io unwrap_model_def)
  have "filter (\<lambda>n. int n mod save_interval env = 0) [1 ..< total_steps env + 1] =
          filter (\<lambda>n. int n mod 350 = 0) [1 ..< 1001]"
    using assms(2) t by simp
  then have f: "filter (\<lambda>n. int n mod save_interval env = 0) [1 ..< total_steps env + 1] = [350, 700]"
    using multiples_350 by (rule trans)
  have m: "mset (saved_paths (fst (train_consistency_distillation env))) = mset ?canon"
    using train_paths [OF r assms(1), unfolded f] by simp
  have "distinct (map (\<lambda>e. epoch_path env (e + 1)) (epoch_range env))"
    by (simp add: distinct_map inj_on_def epoch_range_def)
  then have "distinct ?canon"
    using epoch_path_neq_final_path [of env, symmetric] step_path_neq_final_path [of env, symmetric]
      step_path_neq_epoch_path [of env, symmetric]
    by auto
  with m have "distinct (saved_paths (fst (train_consistency_distillation env)))"
    by (metis mset_eq_imp_distinct_iff)
  moreover have "last (saved_paths (fst (train_consistency_distillation env))) = final_path env"
    using train_paths_split [OF r assms(1)] by simp
  ultimately show ?thesis using m by blast
qed

theorem checkpoint_cadence_witness:
  "is_main_process cadence_env \<and> save_interval cadence_env = 350 \<and>
   (\<exists>s. snd (training_loop cadence_env) = Inr s \<and> step s = 1000) \<and>
   mset (saved_paths (fst (train_consistency_distillation cadence_env))) =
     mset [''out/consistency_model_step_350.pt'', ''out/consistency_model_step_700.pt'',
           ''out/consistency_model_epoch_1.pt'', ''out/consistency_model_epoch_2.pt'',
           ''out/consistency_model_final.pt''] \<and>
   distinct (saved_paths (fst (train_consistency_distillation cadence_env))) \<and>
   last (saved_paths (fst (train_consistency_distillation cadence_env))) =
     ''out/consistency_model_final.pt''"
proof -
  have a: "is_main_process cadence_env" and b: "save_interval cadence_env = 350"
    by (simp_all add: cadence_env_def example_env_def)
  from cadence_env_loop_completes obtain s where
    c: "snd (training_loop cadence_env) = Inr s" and d: "step s = 1000"
    by blast
  have er: "epoch_range cadence_env = [0, 1]"
    by (simp add: epoch_range_def cadence_env_def example_env_def numeral_2_eq_2)
  have p: "step_path cadence_env 350 = ''out/consistency_model_step_350.pt''"
    "step_path cadence_env 700 = ''out/consistency_model_step_700.pt''"
    "map (\<lambda>e. epoch_path cadence_env (e + 1)) (epoch_range cadence_env) =
       [''out/consistency_model_epoch_1.pt'', ''out/consistency_model_epoch_2.pt'']"
    "final_path cadence_env = ''out/consistency_model_final.pt''"
    unfolding er
    by (simp_all add: step_path_def epoch_path_def final_path_def
        cadence_env_def example_env_def str_nat.simps digit_char_eval)
  from checkpoint_cadence [OF a b c d] a b c d show ?thesis
    unfolding p by auto
qed

text \<open>
  C7. Every \<^verbatim>\<open>torch.save\<close> of a run, completed or not, is one of three: a step
  checkpoint \<^verbatim>\<open>consistency_model_step_N.pt\<close> written after some iteration, \<^verbatim>\<open>N\<close>
  being the step counter at that point; an epoch checkpoint
  \<^verbatim>\<open>consistency_model_epoch_E.pt\<close> written after the last iteration of epoch \<^verbatim>\<open>E - 1\<close>;
  or \<^verbatim>\<open>consistency_model_final.pt\<close> written after the loops. What is written is the
  EMA model's parameters in the state of that point, nothing else.
\<close>

theorem checkpoint_contents:
  assumes "TorchSave c p \<in> set (fst (train_consistency_distillation env))"
  shows "(\<exists>e k s. e < nat (num_epochs env) \<and> 0 < k \<and> k \<le> length (train_dataloader env e) \<and>
            snd (run_prefix env e k) = Inr s \<and>
            c = ema_params s \<and> p = step_path env (step s)) \<or>
         (\<exists>e s. e < nat (num_epochs env) \<and>
            snd (run_prefix env e (length (train_dataloader env e))) = Inr s \<and>
            c = ema_params s \<and> p = epoch_path env (e + 1)) \<or>
         (\<exists>s. snd (training_loop env) = Inr s \<and>
            c = ema_params s \<and> p = final_path env)"
proof -
  from assms have "(c, p) \<in> set (saves (fst (train_consistency_distillation env)))"
    by (simp add: saves_mem)
  then consider
    (loops) "(c, p) \<in> set (saves (fst (train_epochs env [0 ..< nat (num_epochs env)]
                                       (initial_state env))))"
  | (final) s where "snd (training_loop env) = Inr s"
      "(c, p) \<in> set (saves (fst (save_final env s)))"
    by (auto simp: train_consistency_distillation_def fst_bind_io snd_bind_io
        fst_training_loop startup_eq epoch_range_def split: sum.splits if_splits)
  then show ?thesis
  proof cases
    case loops
    from train_epochs_save [OF this] obtain e s1 where
      e: "e < nat (num_epochs env)"
      and s1: "snd (train_epochs env [0 ..< e] (initial_state env)) = Inr s1"
      and m: "(c, p) \<in> set (saves (fst (train_epoch env e s1)))"
      by blast
    from train_epoch_save [OF m] show ?thesis
    proof
      assume "\<exists>k s'. 0 < k \<and> k \<le> length (train_dataloader env e) \<and>
            snd (train_batches env e 0 (take k (train_dataloader env e)) s1) = Inr s' \<and>
            c = ema_params s' \<and> p = step_path env (step s')"
      then obtain k s' where
        "0 < k" "k \<le> length (train_dataloader env e)"
        "snd (train_batches env e 0 (take k (train_dataloader env e)) s1) = Inr s'"
        "c = ema_params s'" "p = step_path env (step s')"
        by blast
      with e s1 have "e < nat (num_epochs env) \<and> 0 < k \<and> k \<le> length (train_dataloader env e) \<and>
            snd (run_prefix env e k) = Inr s' \<and>
            c = ema_params s' \<and> p = step_path env (step s')"
        by (auto simp: run_prefix_Inr)
      then show ?thesis by blast
    next
      assume "\<exists>s'. snd (train_batches env e 0 (train_dataloader env e) s1) = Inr s' \<and>
            c = ema_params s' \<and> p = epoch_path env (e + 1)"
      then obtain s' where
        "snd (train_batches env e 0 (train_dataloader env e) s1) = Inr s'"
        "c = ema_params s'" "p = epoch_path env (e + 1)"
        by blast
      with e s1 have "e < nat (num_epochs env) \<and>
            snd (run_prefix env e (length (train_dataloader env e))) = Inr s' \<and>
            c = ema_params s' \<and> p = epoch_path env (e + 1)"
        by (auto simp: run_prefix_Inr)
      then show ?thesis by blast
    qed
  next
    case final
    from final(2) have "c = ema_params s \<and> p = final_path env"
      by (auto simp: save_final_def when_io_def fst_bind_io state_dict_def
          unwrap_model_def split: if_splits)
    with final(1) show ?thesis by blast
  qed
qed

theorem checkpoint_contents_witness:
  "TorchSave [[239201 / 8000000]] ''out/consistency_model_step_3.pt''
     \<in> set (fst (train_consistency_distillation example_env)) \<and>
   ((\<exists>e k s. e < nat (num_epochs example_env) \<and> 0 < k \<and>
        k \<le> length (train_dataloader example_env e) \<and>
        snd (run_prefix example_env e k) = Inr s \<and>
        [[239201 / 8000000]] = ema_params s \<and>
        ''out/consistency_model_step_3.pt'' = step_path example_env (step s)) \<or>
    (\<exists>e s. e < nat (num_epochs example_env) \<and>
        snd (run_prefix example_env e (length (train_dataloader example_env e))) = Inr s \<and>
        [[239201 / 8000000]] = ema_params s \<and>
        ''out/consistency_model_step_3.pt'' = epoch_path example_env (e + 1)) \<or>
    (\<exists>s. snd (training_loop example_env) = Inr s \<and>
        [[239201 / 8000000]] = ema_params s \<and>
        ''out/consistency_model_step_3.pt'' = final_path example_env))"
proof -
  have h: "TorchSave [[239201 / 8000000]] ''out/consistency_model_step_3.pt''
     \<in> set (fst (train_consistency_distillation example_env))"
    by code_simp
  from checkpoint_contents [OF h] h show ?thesis by blast
qed

end
